theory Spec2Isabelle
  imports Main
begin

section \<open>Email deliverability tester and email sender: a shallow embedding\<close>

text \<open>
  The development follows \<^verbatim>\<open>src/email-tester.ts\<close> (class
  \<^verbatim>\<open>EmailDeliverabilityTester\<close>) and \<^verbatim>\<open>src/email-sender.ts\<close> (class
  \<^verbatim>\<open>EmailSender\<close>). JavaScript strings are modelled as \<^typ>\<open>string\<close>, that is,
  as lists of code units below 256; \<^verbatim>\<open>undefined\<close> in an optional field is \<open>None\<close>.
\<close>

subsection \<open>Strings\<close>

text \<open>
  The members of the regular-expression class \<^verbatim>\<open>\s\<close> below code unit 256: tab, line feed,
  vertical tab, form feed, carriage return, space and the no-break space.
\<close>

definition isWhitespace :: "char \<Rightarrow> bool" where
  "isWhitespace c = (of_char c \<in> {9, 10, 11, 12, 13, 32, 160 :: nat})"

text \<open>\<^verbatim>\<open>String.prototype.toLowerCase\<close> on code units below 256.\<close>

definition toLowerChar :: "char \<Rightarrow> char" where
  "toLowerChar c =
     (let n = (of_char c :: nat)
      in if (65 \<le> n \<and> n \<le> 90) \<or> (192 \<le> n \<and> n \<le> 222 \<and> n \<noteq> 215)
         then char_of (n + 32) else c)"

definition toLowerCase :: "string \<Rightarrow> string" where
  "toLowerCase s = map toLowerChar s"

definition startsWith :: "string \<Rightarrow> string \<Rightarrow> bool" where
  "startsWith s p = (take (length p) s = p)"

text \<open>\<^verbatim>\<open>s.includes(p)\<close>: \<open>p\<close> occurs in \<open>s\<close> as a contiguous substring.\<close>

fun includesStr :: "string \<Rightarrow> string \<Rightarrow> bool" where
  "includesStr [] p = (p = [])"
| "includesStr (c # s) p = (startsWith (c # s) p \<or> includesStr s p)"

text \<open>
  \<^verbatim>\<open>s.split(sep)\<close> for a one-character separator: the pieces between the occurrences
  of the separator, at least one piece.
\<close>

fun split :: "char \<Rightarrow> string \<Rightarrow> string list" where
  "split sep [] = [[]]"
| "split sep (c # s) =
     (if c = sep then [] # split sep s
      else (case split sep s of
              [] \<Rightarrow> [[c]]
            | p # ps \<Rightarrow> (c # p) # ps))"

text \<open>Array indexing: an index out of range reads \<^verbatim>\<open>undefined\<close>.\<close>

definition index :: "'a list \<Rightarrow> nat \<Rightarrow> 'a option" where
  "index xs i = (if i < length xs then Some (xs ! i) else None)"

subsection \<open>Anchored regular expressions over character classes\<close>

text \<open>
  The one regular expression of the program, \<^verbatim>\<open>/^[^\s@]+@[^\s@]+\.[^\s@]+$/\<close>, is a
  sequence of items anchored at both ends, each item a character class taken once or one
  or more times. \<open>rmatch\<close> decides whether the whole input matches such a sequence
  (\<^verbatim>\<open>RegExp.prototype.test\<close> without flags).
\<close>

datatype item = Once "char \<Rightarrow> bool" | OneOrMore "char \<Rightarrow> bool"

fun rmatch :: "item list \<Rightarrow> string \<Rightarrow> bool" where
  "rmatch [] s = (s = [])"
| "rmatch (Once p # is) [] = False"
| "rmatch (Once p # is) (c # s) = (p c \<and> rmatch is s)"
| "rmatch (OneOrMore p # is) [] = False"
| "rmatch (OneOrMore p # is) (c # s) =
     (p c \<and> (rmatch (OneOrMore p # is) s \<or> rmatch is s))"

definition notSpaceOrAt :: "char \<Rightarrow> bool" where
  "notSpaceOrAt c = (\<not> isWhitespace c \<and> c \<noteq> CHR ''@'')"

definition emailRegex :: "item list" where
  "emailRegex =
     [OneOrMore notSpaceOrAt, Once (\<lambda>c. c = CHR ''@''),
      OneOrMore notSpaceOrAt, Once (\<lambda>c. c = CHR ''.''),
      OneOrMore notSpaceOrAt]"

definition validateEmailFormat :: "string \<Rightarrow> bool" where
  "validateEmailFormat email = rmatch emailRegex email"

text \<open>
  \<^verbatim>\<open>email.split('@')[1]\<close>; \<open>None\<close> is \<^verbatim>\<open>undefined\<close>, read when the string has no
  \<^verbatim>\<open>@\<close>.
\<close>

definition extractDomain :: "string \<Rightarrow> string option" where
  "extractDomain email = index (split (CHR ''@'') email) 1"

subsection \<open>Asynchronous calls, exceptions and the outside world\<close>

text \<open>
  A thrown value is an \<^verbatim>\<open>Error\<close> object with its message, or any other value. The
  handlers of the program read it with
  \<^verbatim>\<open>error instanceof Error ? error.message : fallback\<close>.
\<close>

datatype thrown = ErrorObject string | OtherValue

definition errorMessageOr :: "thrown \<Rightarrow> string \<Rightarrow> string" where
  "errorMessageOr e fallback = (case e of ErrorObject m \<Rightarrow> m | OtherValue \<Rightarrow> fallback)"

record MxRecord =
  exchange :: string
  priority :: int

record SmtpAuth =
  user :: string
  pass :: string

text \<open>
  \<^verbatim>\<open>SmtpConfig\<close> is declared in both source files; the sender's declaration adds the
  optional \<^verbatim>\<open>tls\<close> object (\<^verbatim>\<open>{ rejectUnauthorized?: boolean }\<close>).
\<close>

record SmtpConfig =
  host :: string
  port :: int
  secure :: bool
  auth :: "SmtpAuth option"
  tls :: "bool option option"

record EmailAttachment =
  filename :: string
  content :: string
  contentType :: "string option"
  encoding :: "string option"
  cid :: "string option"

text \<open>A value of type \<^verbatim>\<open>string | string[]\<close>.\<close>

datatype recipients = Single string | Multiple "string list"

text \<open>
  \<^verbatim>\<open>EmailOptions\<close> of the sender. The message handed to the mail library's
  \<^verbatim>\<open>sendMail\<close> has the same fields, so it is a value of the same record. The fields
  \<^verbatim>\<open>from\<close> and \<^verbatim>\<open>text\<close> carry a prime.
\<close>

record EmailOptions =
  to :: recipients
  from' :: "string option"
  subject :: string
  text' :: "string option"
  html :: "string option"
  cc :: "recipients option"
  bcc :: "recipients option"
  replyTo :: "string option"
  attachments :: "EmailAttachment list option"
  headers :: "(string \<times> string) list option"

text \<open>The client handle of the cloud mail API, built from a region and credentials.\<close>

record SESClient =
  region :: string
  accessKeyId :: string
  secretAccessKey :: string

text \<open>
  The parameters of \<^verbatim>\<open>SendEmailCommand\<close>; every \<^verbatim>\<open>Charset\<close> is the constant
  \<^verbatim>\<open>'UTF-8'\<close> and is left out.
\<close>

record SendEmailParams =
  ToAddresses :: "string list"
  CcAddresses :: "string list option"
  BccAddresses :: "string list option"
  HtmlData :: "string option"
  TextData :: "string option"
  SubjectData :: string
  Source :: string
  ReplyToAddresses :: "string list option"

text \<open>
  The options of \<^verbatim>\<open>nodemailer.createTransport\<close>: an SMTP configuration, or the
  local \<^verbatim>\<open>sendmail\<close> transport of the raw-message path. A transporter is identified
  with the options it was created from.
\<close>

datatype Transporter = SmtpTransport SmtpConfig | SendmailTransport

text \<open>
  Every call that leaves the program is recorded as an event. The history of events is
  the state threaded through the program.
\<close>

datatype event =
    DateNow
  | ResolveMx string
  | ResolveTxt string
  | SesSendEmail SESClient SendEmailParams
  | SesSendRawEmail SESClient string
  | CreateTransport Transporter
  | TransporterVerify Transporter
  | TransporterSendMail Transporter EmailOptions

text \<open>
  The outside world answers each call; an answer may depend on everything that happened
  before. \<open>Inl\<close> is a rejected promise (a thrown value). \<open>dnsResolveMx\<close> may resolve to
  \<^verbatim>\<open>undefined\<close>, which the program guards against. \<open>sesSendEmail\<close> and
  \<open>sesSendRawEmail\<close> give \<^verbatim>\<open>response.MessageId\<close>, \<open>transporterSendMail\<close> gives
  \<^verbatim>\<open>info.messageId\<close>. \<open>sendmailCallback\<close> is what the \<^verbatim>\<open>sendmail\<close> transport of the
  raw-message path passes to the callback of \<^verbatim>\<open>sendMail\<close>: an error, or an info object
  of which the program reads \<^verbatim>\<open>info.message\<close>, which may be \<^verbatim>\<open>undefined\<close>.
\<close>

record world =
  now :: "event list \<Rightarrow> int"
  dnsResolveMx :: "event list \<Rightarrow> string \<Rightarrow> thrown + MxRecord list option"
  dnsResolveTxt :: "event list \<Rightarrow> string \<Rightarrow> thrown + string list list"
  sesSendEmail :: "event list \<Rightarrow> SESClient \<Rightarrow> SendEmailParams \<Rightarrow> thrown + string option"
  sesSendRawEmail :: "event list \<Rightarrow> SESClient \<Rightarrow> string \<Rightarrow> thrown + string option"
  createTransport :: "event list \<Rightarrow> Transporter \<Rightarrow> thrown + unit"
  transporterVerify :: "event list \<Rightarrow> Transporter \<Rightarrow> thrown + unit"
  transporterSendMail :: "event list \<Rightarrow> Transporter \<Rightarrow> EmailOptions \<Rightarrow> thrown + string option"
  sendmailCallback :: "event list \<Rightarrow> EmailOptions \<Rightarrow> thrown + string option"

text \<open>
  An asynchronous computation takes the history so far and gives a value or a thrown
  value, with the history extended by the calls it made.
\<close>

type_synonym 'a io = "event list \<Rightarrow> (thrown + 'a) \<times> event list"

definition ret :: "'a \<Rightarrow> 'a io" where
  "ret x h = (Inr x, h)"

definition throw :: "thrown \<Rightarrow> 'a io" where
  "throw e h = (Inl e, h)"

text \<open>\<open>andThen m f\<close>: await \<open>m\<close>, then continue with \<open>f\<close>; a thrown value propagates.\<close>

definition andThen :: "'a io \<Rightarrow> ('a \<Rightarrow> 'b io) \<Rightarrow> 'b io" where
  "andThen m f h = (case m h of (Inl e, h') \<Rightarrow> (Inl e, h') | (Inr x, h') \<Rightarrow> f x h')"

text \<open>\<open>tryCatch m handler\<close>: \<^verbatim>\<open>try { m } catch (e) { handler(e) }\<close>.\<close>

definition tryCatch :: "'a io \<Rightarrow> (thrown \<Rightarrow> 'a io) \<Rightarrow> 'a io" where
  "tryCatch m handler h = (case m h of (Inl e, h') \<Rightarrow> handler e h' | (Inr x, h') \<Rightarrow> (Inr x, h'))"

text \<open>\<open>perform ev answer\<close>: one call to the outside world, recorded as the event \<open>ev\<close>.\<close>

definition perform :: "event \<Rightarrow> (event list \<Rightarrow> thrown + 'a) \<Rightarrow> 'a io" where
  "perform ev answer h = (answer h, h @ [ev])"

definition dateNow :: "world \<Rightarrow> int io" where
  "dateNow w = perform DateNow (\<lambda>h. Inr (now w h))"

text \<open>The events that hand a message to a delivery backend, or open a connection to one.\<close>

fun isBackendCall :: "event \<Rightarrow> bool" where
  "isBackendCall (SesSendEmail _ _) = True"
| "isBackendCall (SesSendRawEmail _ _) = True"
| "isBackendCall (CreateTransport _) = True"
| "isBackendCall (TransporterVerify _) = True"
| "isBackendCall (TransporterSendMail _ _) = True"
| "isBackendCall _ = False"

fun isDnsCall :: "event \<Rightarrow> bool" where
  "isDnsCall (ResolveMx _) = True"
| "isDnsCall (ResolveTxt _) = True"
| "isDnsCall _ = False"

text \<open>JavaScript truthiness of an optional string and of an optional boolean.\<close>

definition truthyString :: "string option \<Rightarrow> bool" where
  "truthyString s = (case s of None \<Rightarrow> False | Some x \<Rightarrow> x \<noteq> [])"

definition truthyBool :: "bool option \<Rightarrow> bool" where
  "truthyBool b = (b = Some True)"

text \<open>\<^verbatim>\<open>a || b\<close> for an optional string \<open>a\<close> and a string \<open>b\<close>.\<close>

definition stringOr :: "string option \<Rightarrow> string \<Rightarrow> string" where
  "stringOr a b = (case a of None \<Rightarrow> b | Some x \<Rightarrow> if x = [] then b else x)"

text \<open>An optional string inside a template literal.\<close>

definition templateString :: "string option \<Rightarrow> string" where
  "templateString s = (case s of None \<Rightarrow> ''undefined'' | Some x \<Rightarrow> x)"

subsection \<open>The deliverability tester (\<^verbatim>\<open>email-tester.ts\<close>)\<close>

record TestMessage =
  subject :: string
  text' :: string
  html :: "string option"

datatype Backend = AwsSes | Smtp

text \<open>The provider of a test: \<^verbatim>\<open>'aws-ses' | 'smtp' | 'both'\<close>.\<close>

datatype TestProvider = Only Backend | Both

record EmailTestConfig =
  email :: string
  provider :: "TestProvider option"
  smtpConfig :: "SmtpConfig option"
  testMessage :: "TestMessage option"
  skipActualDelivery :: "bool option"

record DeliveryOutcome =
  success :: bool
  messageId :: "string option"
  error :: "string option"

record DeliveryTestResults =
  awsSes :: "DeliveryOutcome option"
  smtp :: "DeliveryOutcome option"

text \<open>
  \<^verbatim>\<open>EmailTestResult\<close> is built in two steps: the findings first, which
  \<^verbatim>\<open>generateRecommendations\<close> reads from the partial result, then the recommendations
  and the duration.
\<close>

record EmailTestFindings =
  email :: string
  isValid :: bool
  domainExists :: bool
  mxRecords :: "MxRecord list"
  spfRecord :: "string option"
  dmarcRecord :: "string option"
  deliverabilityTests :: DeliveryTestResults

record EmailTestResult = EmailTestFindings +
  recommendations :: "string list"
  testDuration :: "int option"

record InvalidEmail =
  email :: string
  issues :: "string list"

record DomainCheck =
  exists :: bool
  mxRecords :: "MxRecord list"

text \<open>
  The fields of an \<^verbatim>\<open>EmailDeliverabilityTester\<close> instance. The constructor, which
  builds the cloud client from its arguments or from the environment, is not modelled: an
  instance is given by its fields.
\<close>

record EmailDeliverabilityTester =
  sesClient :: "SESClient option"
  defaultFromEmail :: string

text \<open>
  The resolver rejects a name that is not a string before any query is sent; the value
  read by \<open>extractDomain\<close> may be \<^verbatim>\<open>undefined\<close>.
\<close>

definition invalidNameError :: thrown where
  "invalidNameError = ErrorObject ''The name argument must be of type string. Received undefined''"

definition checkDomainAndMX :: "world \<Rightarrow> string option \<Rightarrow> DomainCheck io" where
  "checkDomainAndMX w domain =
     tryCatch
       (andThen
          (case domain of
             None \<Rightarrow> throw invalidNameError
           | Some d \<Rightarrow> perform (ResolveMx d) (\<lambda>h. dnsResolveMx w h d))
          (\<lambda>mxRecords.
             ret \<lparr>exists = True,
                  DomainCheck.mxRecords = (case mxRecords of None \<Rightarrow> [] | Some rs \<Rightarrow> rs)\<rparr>))
       (\<lambda>_. ret \<lparr>exists = False, DomainCheck.mxRecords = []\<rparr>)"

text \<open>
  The first TXT record one of whose strings starts, in lower case, with the prefix,
  joined; \<^verbatim>\<open>undefined\<close> when there is none.
\<close>

definition findTxtRecord :: "string \<Rightarrow> string list list \<Rightarrow> string option" where
  "findTxtRecord prefix txtRecords =
     (case find (\<lambda>record. list_ex (\<lambda>txt. startsWith (toLowerCase txt) prefix) record) txtRecords of
        None \<Rightarrow> None
      | Some record \<Rightarrow> Some (concat record))"

definition checkSpfRecord :: "world \<Rightarrow> string option \<Rightarrow> string option io" where
  "checkSpfRecord w domain =
     tryCatch
       (andThen
          (case domain of
             None \<Rightarrow> throw invalidNameError
           | Some d \<Rightarrow> perform (ResolveTxt d) (\<lambda>h. dnsResolveTxt w h d))
          (\<lambda>txtRecords. ret (findTxtRecord ''v=spf1'' txtRecords)))
       (\<lambda>_. ret None)"

definition checkDmarcRecord :: "world \<Rightarrow> string option \<Rightarrow> string option io" where
  "checkDmarcRecord w domain =
     tryCatch
       (let dmarcDomain = ''_dmarc.'' @ templateString domain
        in andThen
             (perform (ResolveTxt dmarcDomain) (\<lambda>h. dnsResolveTxt w h dmarcDomain))
             (\<lambda>txtRecords. ret (findTxtRecord ''v=dmarc1'' txtRecords)))
       (\<lambda>_. ret None)"

definition defaultMessage :: "EmailTestConfig \<Rightarrow> TestMessage" where
  "defaultMessage config =
     \<lparr>TestMessage.subject = ''Email Deliverability Test'',
      TestMessage.text' =
        ''This is a test email to verify deliverability for '' @ EmailTestConfig.email config,
      TestMessage.html =
        Some (''<p>This is a test email to verify deliverability for <strong>''
              @ EmailTestConfig.email config @ ''</strong></p>'')\<rparr>"

definition testAwsSesDelivery ::
  "EmailDeliverabilityTester \<Rightarrow> world \<Rightarrow> EmailTestConfig \<Rightarrow> DeliveryOutcome io" where
  "testAwsSesDelivery t w config =
     (case sesClient t of
        None \<Rightarrow>
          ret \<lparr>success = False, messageId = None, error = Some ''AWS SES not configured''\<rparr>
      | Some client \<Rightarrow>
          if truthyBool (skipActualDelivery config)
          then ret \<lparr>success = True, messageId = Some ''skipped-test-mode'', error = None\<rparr>
          else
            let message = (case testMessage config of
                             None \<Rightarrow> defaultMessage config | Some m \<Rightarrow> m);
                params =
                  \<lparr>ToAddresses = [EmailTestConfig.email config],
                   CcAddresses = None,
                   BccAddresses = None,
                   HtmlData = Some (stringOr (TestMessage.html message) (TestMessage.text' message)),
                   TextData = Some (TestMessage.text' message),
                   SubjectData = TestMessage.subject message,
                   Source = defaultFromEmail t,
                   ReplyToAddresses = None\<rparr>
            in tryCatch
                 (andThen
                    (perform (SesSendEmail client params) (\<lambda>h. sesSendEmail w h client params))
                    (\<lambda>responseMessageId.
                       ret \<lparr>success = True, messageId = responseMessageId, error = None\<rparr>))
                 (\<lambda>e. ret \<lparr>success = False, messageId = None,
                            error = Some (errorMessageOr e ''Unknown error'')\<rparr>))"

definition testSmtpDelivery ::
  "EmailDeliverabilityTester \<Rightarrow> world \<Rightarrow> EmailTestConfig \<Rightarrow> DeliveryOutcome io" where
  "testSmtpDelivery t w config =
     (case smtpConfig config of
        None \<Rightarrow>
          ret \<lparr>success = False, messageId = None,
               error = Some ''SMTP configuration not provided''\<rparr>
      | Some sc \<Rightarrow>
          if truthyBool (skipActualDelivery config)
          then ret \<lparr>success = True, messageId = Some ''skipped-test-mode'', error = None\<rparr>
          else
            let message = (case testMessage config of
                             None \<Rightarrow> defaultMessage config | Some m \<Rightarrow> m);
                transporter = SmtpTransport sc;
                mail =
                  \<lparr>to = Single (EmailTestConfig.email config),
                   from' = Some (stringOr (map_option user (auth sc)) (defaultFromEmail t)),
                   EmailOptions.subject = TestMessage.subject message,
                   EmailOptions.text' = Some (TestMessage.text' message),
                   EmailOptions.html = Some (stringOr (TestMessage.html message) (TestMessage.text' message)),
                   cc = None, bcc = None, replyTo = None, attachments = None,
                   headers = None\<rparr>
            in tryCatch
                 (andThen
                    (perform (CreateTransport transporter) (\<lambda>h. createTransport w h transporter))
                    (\<lambda>_. andThen
                       (perform (TransporterVerify transporter)
                          (\<lambda>h. transporterVerify w h transporter))
                       (\<lambda>_. andThen
                          (perform (TransporterSendMail transporter mail)
                             (\<lambda>h. transporterSendMail w h transporter mail))
                          (\<lambda>infoMessageId.
                             ret \<lparr>success = True, messageId = infoMessageId, error = None\<rparr>))))
                 (\<lambda>e. ret \<lparr>success = False, messageId = None,
                            error = Some (errorMessageOr e ''Unknown error'')\<rparr>))"

text \<open>
  \<^verbatim>\<open>generateRecommendations\<close> reads the findings of a partial result. It is private and
  both of its callers have assigned \<^verbatim>\<open>isValid\<close>, \<^verbatim>\<open>domainExists\<close>,
  \<^verbatim>\<open>mxRecords\<close> and \<^verbatim>\<open>deliverabilityTests\<close> before the call.
\<close>

definition sesFailed :: "'a EmailTestFindings_scheme \<Rightarrow> bool" where
  "sesFailed r = (case awsSes (deliverabilityTests r) of
                    None \<Rightarrow> False | Some outcome \<Rightarrow> \<not> success outcome)"

definition smtpFailed :: "'a EmailTestFindings_scheme \<Rightarrow> bool" where
  "smtpFailed r = (case smtp (deliverabilityTests r) of
                     None \<Rightarrow> False | Some outcome \<Rightarrow> \<not> success outcome)"

definition outcomeError :: "DeliveryOutcome option \<Rightarrow> string option" where
  "outcomeError outcome = (case outcome of None \<Rightarrow> None | Some x \<Rightarrow> error x)"

definition generateRecommendations :: "'a EmailTestFindings_scheme \<Rightarrow> string list" where
  "generateRecommendations r =
     (let r0 = [];
          r1 = (if \<not> isValid r
                then r0 @ [''Email format is invalid. Please check the email address.'']
                else r0);
          r2 = (if \<not> domainExists r
                then r1 @ [''Domain does not exist or has no MX records. Check domain configuration.'']
                else r1);
          r3 = (if length (EmailTestFindings.mxRecords r) = 0
                then r2 @ [''No MX records found. Email delivery may fail.'']
                else r2);
          r4 = (if \<not> truthyString (spfRecord r)
                then r3 @ [''No SPF record found. Consider adding an SPF record to improve deliverability.'']
                else r3);
          r5 = (if \<not> truthyString (dmarcRecord r)
                then r4 @ [''No DMARC record found. Consider adding a DMARC policy for better email security.'']
                else r4);
          r6 = (if sesFailed r
                then r5 @ [''AWS SES delivery failed: ''
                           @ templateString (outcomeError (awsSes (deliverabilityTests r)))]
                else r5);
          r7 = (if smtpFailed r
                then r6 @ [''SMTP delivery failed: ''
                           @ templateString (outcomeError (smtp (deliverabilityTests r)))]
                else r6)
      in if length r7 = 0
         then r7 @ [''Email appears to be deliverable. All tests passed successfully.'']
         else r7)"

text \<open>The cast \<^verbatim>\<open>result as EmailTestResult\<close> of the completed partial result.\<close>

definition completeResult :: "EmailTestFindings \<Rightarrow> string list \<Rightarrow> int \<Rightarrow> EmailTestResult" where
  "completeResult findings recs d =
     EmailTestFindings.extend findings (EmailTestResult.fields recs (Some d))"

definition testEmailDeliverability ::
  "EmailDeliverabilityTester \<Rightarrow> world \<Rightarrow> EmailTestConfig \<Rightarrow> EmailTestResult io" where
  "testEmailDeliverability t w config =
     andThen (dateNow w) (\<lambda>startTime.
       if \<not> validateEmailFormat (EmailTestConfig.email config)
       then
         let result =
               \<lparr>EmailTestFindings.email = EmailTestConfig.email config, isValid = False, domainExists = False,
                EmailTestFindings.mxRecords = [], spfRecord = None, dmarcRecord = None,
                deliverabilityTests = \<lparr>awsSes = None, smtp = None\<rparr>\<rparr>;
             recs = generateRecommendations result
         in andThen (dateNow w) (\<lambda>endTime.
              ret (completeResult result recs (endTime - startTime)))
       else
         let domain = extractDomain (EmailTestConfig.email config)
         in andThen (checkDomainAndMX w domain) (\<lambda>domainCheck.
            andThen (checkSpfRecord w domain) (\<lambda>spf.
            andThen (checkDmarcRecord w domain) (\<lambda>dmarc.
            let provider = (case EmailTestConfig.provider config of
                              None \<Rightarrow> Both | Some p \<Rightarrow> p)
            in andThen
                 (if provider = Only AwsSes \<or> provider = Both
                  then andThen (testAwsSesDelivery t w config) (\<lambda>outcome. ret (Some outcome))
                  else ret None) (\<lambda>awsSesOutcome.
               andThen
                 (if provider = Only Smtp \<or> provider = Both
                  then andThen (testSmtpDelivery t w config) (\<lambda>outcome. ret (Some outcome))
                  else ret None) (\<lambda>smtpOutcome.
               let result =
                     \<lparr>EmailTestFindings.email = EmailTestConfig.email config, isValid = True,
                      domainExists = exists domainCheck,
                      EmailTestFindings.mxRecords = DomainCheck.mxRecords domainCheck,
                      spfRecord = spf, dmarcRecord = dmarc,
                      deliverabilityTests = \<lparr>awsSes = awsSesOutcome, smtp = smtpOutcome\<rparr>\<rparr>;
                   recs = generateRecommendations result
               in andThen (dateNow w) (\<lambda>endTime.
                    ret (completeResult result recs (endTime - startTime)))))))))"

text \<open>\<^verbatim>\<open>result.isValid && result.domainExists && result.mxRecords.length > 0\<close>\<close>

definition isDeliverable :: "EmailTestResult \<Rightarrow> bool" where
  "isDeliverable result =
     (isValid result \<and> domainExists result \<and> length (EmailTestFindings.mxRecords result) > 0)"

text \<open>The result pushed by the \<^verbatim>\<open>catch\<close> block of the batch loop.\<close>

definition errorResult :: "EmailTestConfig \<Rightarrow> thrown \<Rightarrow> EmailTestResult" where
  "errorResult config e =
     \<lparr>EmailTestFindings.email = EmailTestConfig.email config, isValid = False, domainExists = False,
      EmailTestFindings.mxRecords = [], spfRecord = None, dmarcRecord = None,
      deliverabilityTests = \<lparr>awsSes = None, smtp = None\<rparr>,
      recommendations = [''Error testing email: '' @ errorMessageOr e ''Unknown error''],
      testDuration = None\<rparr>"

text \<open>
  The \<^verbatim>\<open>for\<close> loop of \<^verbatim>\<open>testMultipleEmails\<close> over the configs, with the list of results
  and the two counters as loop state. The per-item test is the method
  \<^verbatim>\<open>this.testEmailDeliverability\<close>, looked up on the instance at each call; the loop
  takes it as an argument.
\<close>

fun batchLoop ::
  "(EmailTestConfig \<Rightarrow> EmailTestResult io) \<Rightarrow> EmailTestConfig list
     \<Rightarrow> EmailTestResult list \<times> nat \<times> nat \<Rightarrow> (EmailTestResult list \<times> nat \<times> nat) io" where
  "batchLoop test [] acc = ret acc"
| "batchLoop test (config # rest) (results, successful, failed) =
     andThen
       (tryCatch
          (andThen (test config) (\<lambda>result.
             if isDeliverable result
             then ret (results @ [result], successful + 1, failed)
             else ret (results @ [result], successful, failed + 1)))
          (\<lambda>e. ret (results @ [errorResult config e], successful, failed + 1)))
       (batchLoop test rest)"

record BatchTestResult =
  successful :: nat
  failed :: nat
  total :: nat
  results :: "EmailTestResult list"
  duration :: int

text \<open>
  \<^verbatim>\<open>testMultipleEmails\<close>; its first argument is the method that
  \<^verbatim>\<open>this.testEmailDeliverability\<close> resolves to.
\<close>

definition testMultipleEmails ::
  "(EmailTestConfig \<Rightarrow> EmailTestResult io) \<Rightarrow> world \<Rightarrow> EmailTestConfig list
     \<Rightarrow> BatchTestResult io" where
  "testMultipleEmails test w configs =
     andThen (dateNow w) (\<lambda>startTime.
     andThen (batchLoop test configs ([], 0, 0)) (\<lambda>(results, successful, failed).
     andThen (dateNow w) (\<lambda>endTime.
       ret \<lparr>successful = successful, failed = failed, BatchTestResult.total = length configs,
            results = results, duration = endTime - startTime\<rparr>)))"

text \<open>
  The \<^verbatim>\<open>forEach\<close> of \<^verbatim>\<open>validateEmails\<close>, with the two lists it pushes to as loop state.
\<close>

fun classify ::
  "EmailTestResult list \<Rightarrow> string list \<times> InvalidEmail list \<Rightarrow> string list \<times> InvalidEmail list" where
  "classify [] acc = acc"
| "classify (result # rest) (validEmails, invalidEmails) =
     (if isDeliverable result
      then classify rest (validEmails @ [EmailTestFindings.email result], invalidEmails)
      else classify rest
             (validEmails,
              invalidEmails @
                [\<lparr>InvalidEmail.email = EmailTestFindings.email result,
                  issues = filter (\<lambda>r. \<not> includesStr r ''successfully'') (recommendations result)\<rparr>]))"

record ValidationSummary =
  total :: nat
  valid :: nat
  invalid :: nat

record EmailValidationResult =
  validEmails :: "string list"
  invalidEmails :: "InvalidEmail list"
  summary :: ValidationSummary

definition validateEmails ::
  "EmailDeliverabilityTester \<Rightarrow> world \<Rightarrow> string list \<Rightarrow> EmailValidationResult io" where
  "validateEmails t w emails =
     (let configs =
            map (\<lambda>email. \<lparr>EmailTestConfig.email = email, provider = None, smtpConfig = None,
                          testMessage = None, skipActualDelivery = Some True\<rparr>) emails
      in andThen (testMultipleEmails (testEmailDeliverability t w) w configs) (\<lambda>batchResult.
           let (validEmails, invalidEmails) = classify (results batchResult) ([], [])
           in ret \<lparr>validEmails = validEmails, invalidEmails = invalidEmails,
                   summary = \<lparr>ValidationSummary.total = length emails,
                              valid = length validEmails,
                              invalid = length invalidEmails\<rparr>\<rparr>))"

subsection \<open>The sender (\<^verbatim>\<open>email-sender.ts\<close>)\<close>

record EmailSendResult =
  success :: bool
  messageId :: "string option"
  error :: "string option"
  provider :: Backend

text \<open>
  The fields of an \<^verbatim>\<open>EmailSender\<close> instance. The SMTP transporter is created once, by
  \<^verbatim>\<open>initializeSmtp\<close>, from an SMTP configuration, and is identified with it. The
  constructor, which reads the configuration and the environment, is not modelled.
\<close>

record EmailSender =
  sesClient :: "SESClient option"
  smtpTransporter :: "SmtpConfig option"
  defaultFromEmail :: string

text \<open>\<^verbatim>\<open>Array.isArray(x) ? x : [x]\<close>\<close>

definition asArray :: "recipients \<Rightarrow> string list" where
  "asArray x = (case x of Single a \<Rightarrow> [a] | Multiple as \<Rightarrow> as)"

text \<open>\<^verbatim>\<open>x ? (Array.isArray(x) ? x : [x]) : undefined\<close>; an array is truthy, also when empty.\<close>

definition optionalArray :: "recipients option \<Rightarrow> string list option" where
  "optionalArray x =
     (case x of
        None \<Rightarrow> None
      | Some (Single a) \<Rightarrow> if a = [] then None else Some [a]
      | Some (Multiple as) \<Rightarrow> Some as)"

text \<open>\<^verbatim>\<open>s ? s : undefined\<close> for an optional string.\<close>

definition whenTruthy :: "string option \<Rightarrow> string option" where
  "whenTruthy s = (if truthyString s then s else None)"

text \<open>
  The \<^verbatim>\<open>mailOptions\<close> object of \<^verbatim>\<open>sendWithSmtp\<close> and \<^verbatim>\<open>sendRawEmailWithSes\<close>: the
  fields of the email options, with the sender address defaulted.
\<close>

definition mailOptionsOf :: "EmailSender \<Rightarrow> EmailOptions \<Rightarrow> EmailOptions" where
  "mailOptionsOf s emailOptions =
     \<lparr>to = to emailOptions,
      from' = Some (stringOr (from' emailOptions) (EmailSender.defaultFromEmail s)),
      EmailOptions.subject = EmailOptions.subject emailOptions,
      EmailOptions.text' = EmailOptions.text' emailOptions,
      EmailOptions.html = EmailOptions.html emailOptions,
      cc = cc emailOptions,
      bcc = bcc emailOptions,
      replyTo = replyTo emailOptions,
      attachments = attachments emailOptions,
      headers = headers emailOptions\<rparr>"

text \<open>
  The sender has one call with a third outcome. In \<^verbatim>\<open>sendRawEmailWithSes\<close> the raw
  message is built by \<^verbatim>\<open>Buffer.from(info.message)\<close> inside the callback of
  \<^verbatim>\<open>sendMail\<close>. An exception thrown there is thrown outside the promise and outside
  every \<^verbatim>\<open>try\<close> block: the promise never settles, no handler of the program sees the
  exception, and the call neither returns nor throws to its caller. \<open>Uncaught\<close> is that
  outcome.
\<close>

datatype 'a outcome = Resolved 'a | Rejected thrown | Uncaught thrown

type_synonym 'a task = "event list \<Rightarrow> 'a outcome \<times> event list"

definition resolve :: "'a \<Rightarrow> 'a task" where
  "resolve x h = (Resolved x, h)"

definition reject :: "thrown \<Rightarrow> 'a task" where
  "reject e h = (Rejected e, h)"

text \<open>
  \<open>await m f\<close>: await \<open>m\<close>, then continue with \<open>f\<close>; a rejection propagates to the
  caller, and after an uncaught exception nothing follows.
\<close>

definition await :: "'a task \<Rightarrow> ('a \<Rightarrow> 'b task) \<Rightarrow> 'b task" where
  "await m f h =
     (case m h of
        (Resolved x, h') \<Rightarrow> f x h'
      | (Rejected e, h') \<Rightarrow> (Rejected e, h')
      | (Uncaught e, h') \<Rightarrow> (Uncaught e, h'))"

text \<open>
  \<open>tryCatchAwait m handler\<close>: \<^verbatim>\<open>try { await m } catch (e) { handler(e) }\<close>. The
  handler sees a rejection, never an uncaught exception.
\<close>

definition tryCatchAwait :: "'a task \<Rightarrow> (thrown \<Rightarrow> 'a task) \<Rightarrow> 'a task" where
  "tryCatchAwait m handler h =
     (case m h of
        (Resolved x, h') \<Rightarrow> (Resolved x, h')
      | (Rejected e, h') \<Rightarrow> handler e h'
      | (Uncaught e, h') \<Rightarrow> (Uncaught e, h'))"

text \<open>\<open>request ev answer\<close>: one call to the outside world, recorded as the event \<open>ev\<close>.\<close>

definition request :: "event \<Rightarrow> (event list \<Rightarrow> thrown + 'a) \<Rightarrow> 'a task" where
  "request ev answer h =
     (case answer h of Inl e \<Rightarrow> (Rejected e, h @ [ev]) | Inr x \<Rightarrow> (Resolved x, h @ [ev]))"

text \<open>
  \<^verbatim>\<open>this.sesClient!.send(command)\<close> on an instance without a client throws a
  \<^verbatim>\<open>TypeError\<close>, inside the \<^verbatim>\<open>try\<close> block.
\<close>

definition undefinedClientError :: thrown where
  "undefinedClientError = ErrorObject ''Cannot read properties of undefined (reading send)''"

text \<open>\<^verbatim>\<open>Buffer.from(undefined)\<close> throws a \<^verbatim>\<open>TypeError\<close>.\<close>

definition bufferFromError :: thrown where
  "bufferFromError =
     ErrorObject ''The first argument must be of type string or an instance of Buffer, ArrayBuffer, or Array or an Array-like Object. Received undefined''"

text \<open>
  The promise \<^verbatim>\<open>rawEmail\<close> of \<^verbatim>\<open>sendRawEmailWithSes\<close>: the callback of
  \<^verbatim>\<open>tempTransporter.sendMail\<close> rejects it with the error it is given, or resolves it
  with \<^verbatim>\<open>Buffer.from(info.message)\<close>; when that throws, the exception is uncaught.
\<close>

definition rawEmailPromise :: "world \<Rightarrow> EmailOptions \<Rightarrow> string task" where
  "rawEmailPromise w mailOptions h =
     (case sendmailCallback w h mailOptions of
        Inl err \<Rightarrow> Rejected err
      | Inr infoMessage \<Rightarrow>
          (case infoMessage of
             None \<Rightarrow> Uncaught bufferFromError
           | Some m \<Rightarrow> Resolved m),
      h @ [TransporterSendMail SendmailTransport mailOptions])"

definition sendRawEmailWithSes :: "EmailSender \<Rightarrow> world \<Rightarrow> EmailOptions \<Rightarrow> EmailSendResult task" where
  "sendRawEmailWithSes s w emailOptions =
     tryCatchAwait
       (await
          (request (CreateTransport SendmailTransport) (\<lambda>h. createTransport w h SendmailTransport))
          (\<lambda>_.
             let mailOptions = mailOptionsOf s emailOptions
             in await (rawEmailPromise w mailOptions)
                  (\<lambda>rawEmail.
                     await
                       (case EmailSender.sesClient s of
                          None \<Rightarrow> reject undefinedClientError
                        | Some client \<Rightarrow>
                            request (SesSendRawEmail client rawEmail)
                              (\<lambda>h. sesSendRawEmail w h client rawEmail))
                       (\<lambda>responseMessageId.
                          resolve \<lparr>success = True, messageId = responseMessageId, error = None,
                                   provider = AwsSes\<rparr>))))
       (\<lambda>e. resolve \<lparr>success = False, messageId = None,
                      error = Some (errorMessageOr e ''Unknown AWS SES raw email error''),
                      provider = AwsSes\<rparr>)"

text \<open>\<^verbatim>\<open>emailOptions.attachments && emailOptions.attachments.length > 0\<close>\<close>

definition hasAttachments :: "EmailOptions \<Rightarrow> bool" where
  "hasAttachments emailOptions =
     (case attachments emailOptions of None \<Rightarrow> False | Some as \<Rightarrow> length as > 0)"

definition sendWithSes :: "EmailSender \<Rightarrow> world \<Rightarrow> EmailOptions \<Rightarrow> EmailSendResult task" where
  "sendWithSes s w emailOptions =
     (case EmailSender.sesClient s of
        None \<Rightarrow>
          resolve \<lparr>success = False, messageId = None,
                   error = Some ''AWS SES not configured. Please provide AWS credentials.'',
                   provider = AwsSes\<rparr>
      | Some client \<Rightarrow>
          tryCatchAwait
            (let toAddresses = asArray (to emailOptions);
                 ccAddresses = optionalArray (cc emailOptions);
                 bccAddresses = optionalArray (bcc emailOptions)
             in if hasAttachments emailOptions
                then sendRawEmailWithSes s w emailOptions
                else
                  let params =
                        \<lparr>ToAddresses = toAddresses,
                         CcAddresses = ccAddresses,
                         BccAddresses = bccAddresses,
                         HtmlData = whenTruthy (EmailOptions.html emailOptions),
                         TextData = whenTruthy (EmailOptions.text' emailOptions),
                         SubjectData = EmailOptions.subject emailOptions,
                         Source = stringOr (from' emailOptions) (EmailSender.defaultFromEmail s),
                         ReplyToAddresses =
                           map_option (\<lambda>r. [r]) (whenTruthy (replyTo emailOptions))\<rparr>
                  in await
                       (request (SesSendEmail client params) (\<lambda>h. sesSendEmail w h client params))
                       (\<lambda>responseMessageId.
                          resolve \<lparr>success = True, messageId = responseMessageId, error = None,
                                   provider = AwsSes\<rparr>))
            (\<lambda>e. resolve \<lparr>success = False, messageId = None,
                           error = Some (errorMessageOr e ''Unknown AWS SES error''),
                           provider = AwsSes\<rparr>))"

definition sendWithSmtp :: "EmailSender \<Rightarrow> world \<Rightarrow> EmailOptions \<Rightarrow> EmailSendResult task" where
  "sendWithSmtp s w emailOptions =
     (case smtpTransporter s of
        None \<Rightarrow>
          resolve \<lparr>success = False, messageId = None,
                   error = Some ''SMTP not configured. Please provide SMTP configuration.'',
                   provider = Smtp\<rparr>
      | Some sc \<Rightarrow>
          tryCatchAwait
            (await
               (request (TransporterVerify (SmtpTransport sc))
                  (\<lambda>h. transporterVerify w h (SmtpTransport sc)))
               (\<lambda>_.
                  let mailOptions = mailOptionsOf s emailOptions
                  in await
                       (request (TransporterSendMail (SmtpTransport sc) mailOptions)
                          (\<lambda>h. transporterSendMail w h (SmtpTransport sc) mailOptions))
                       (\<lambda>infoMessageId.
                          resolve \<lparr>success = True, messageId = infoMessageId, error = None,
                                   provider = Smtp\<rparr>)))
            (\<lambda>e. resolve \<lparr>success = False, messageId = None,
                           error = Some (errorMessageOr e ''Unknown SMTP error''),
                           provider = Smtp\<rparr>))"

text \<open>
  The end of \<^verbatim>\<open>send\<close>, reached when the cloud attempt was not made or did not succeed:
  SMTP when its transporter is there, the failure result otherwise.
\<close>

definition noProviderResult :: EmailSendResult where
  "noProviderResult =
     \<lparr>success = False, messageId = None,
      error = Some ''No email provider configured. Please configure AWS SES or SMTP.'',
      provider = AwsSes\<rparr>"

definition sendSmtpOrFail :: "EmailSender \<Rightarrow> world \<Rightarrow> EmailOptions \<Rightarrow> EmailSendResult task" where
  "sendSmtpOrFail s w emailOptions =
     (case smtpTransporter s of
        Some _ \<Rightarrow> sendWithSmtp s w emailOptions
      | None \<Rightarrow> resolve noProviderResult)"

text \<open>\<^verbatim>\<open>send\<close>, with \<open>providerArg\<close> its optional \<^verbatim>\<open>provider\<close> argument; the console output is left out.\<close>

definition send ::
  "EmailSender \<Rightarrow> world \<Rightarrow> EmailOptions \<Rightarrow> Backend option \<Rightarrow> EmailSendResult task" where
  "send s w emailOptions providerArg =
     (if providerArg = Some AwsSes then sendWithSes s w emailOptions
      else if providerArg = Some Smtp then sendWithSmtp s w emailOptions
      else
        (case EmailSender.sesClient s of
           Some _ \<Rightarrow>
             await (sendWithSes s w emailOptions) (\<lambda>sesResult.
               if EmailSendResult.success sesResult then resolve sesResult
               else sendSmtpOrFail s w emailOptions)
         | None \<Rightarrow> sendSmtpOrFail s w emailOptions))"




subsection \<open>Example worlds and inputs\<close>

text \<open>
  A world in which every call to the network fails, and one in which every call succeeds.
  In the second the info object of the \<^verbatim>\<open>sendmail\<close> transport has no \<^verbatim>\<open>message\<close>.
\<close>

definition offlineWorld :: world where
  "offlineWorld =
     \<lparr>now = (\<lambda>h. int (length h)),
      dnsResolveMx = (\<lambda>h d. Inl (ErrorObject ''queryMx ENOTFOUND'')),
      dnsResolveTxt = (\<lambda>h d. Inl (ErrorObject ''queryTxt ENOTFOUND'')),
      sesSendEmail = (\<lambda>h c p. Inl (ErrorObject ''connect ECONNREFUSED'')),
      sesSendRawEmail = (\<lambda>h c r. Inl (ErrorObject ''connect ECONNREFUSED'')),
      createTransport = (\<lambda>h t. Inr ()),
      transporterVerify = (\<lambda>h t. Inl (ErrorObject ''connect ECONNREFUSED'')),
      transporterSendMail = (\<lambda>h t m. Inl (ErrorObject ''connect ECONNREFUSED'')),
      sendmailCallback = (\<lambda>h m. Inl (ErrorObject ''spawn /usr/sbin/sendmail ENOENT''))\<rparr>"

definition onlineWorld :: world where
  "onlineWorld =
     \<lparr>now = (\<lambda>h. int (length h)),
      dnsResolveMx = (\<lambda>h d. Inr (Some [\<lparr>exchange = ''mx.'' @ d, priority = 10\<rparr>])),
      dnsResolveTxt = (\<lambda>h d.
        if startsWith d ''_dmarc.'' then Inr [[''v=DMARC1; p=none'']]
        else Inr [[''google-site-verification=abc''], [''v=spf1 '', ''-all'']]),
      sesSendEmail = (\<lambda>h c p. Inr (Some ''ses-message-1'')),
      sesSendRawEmail = (\<lambda>h c r. Inr (Some ''ses-raw-message-1'')),
      createTransport = (\<lambda>h t. Inr ()),
      transporterVerify = (\<lambda>h t. Inr ()),
      transporterSendMail = (\<lambda>h t m. Inr (Some ''smtp-message-1'')),
      sendmailCallback = (\<lambda>h m. Inr None)\<rparr>"

definition exampleClient :: SESClient where
  "exampleClient = \<lparr>region = ''us-east-1'', accessKeyId = ''key'', secretAccessKey = ''secret''\<rparr>"

definition exampleSmtpConfig :: SmtpConfig where
  "exampleSmtpConfig =
     \<lparr>host = ''smtp.example.com'', port = 587, secure = False, auth = None, tls = None\<rparr>"

definition testerWithoutSes :: EmailDeliverabilityTester where
  "testerWithoutSes =
     \<lparr>EmailDeliverabilityTester.sesClient = None,
      EmailDeliverabilityTester.defaultFromEmail = ''no-reply@example.com''\<rparr>"

definition testerWithSes :: EmailDeliverabilityTester where
  "testerWithSes =
     \<lparr>EmailDeliverabilityTester.sesClient = Some exampleClient,
      EmailDeliverabilityTester.defaultFromEmail = ''no-reply@example.com''\<rparr>"

definition exampleConfig :: "string \<Rightarrow> TestProvider option \<Rightarrow> bool option \<Rightarrow> EmailTestConfig" where
  "exampleConfig address prov skip =
     \<lparr>EmailTestConfig.email = address, provider = prov, smtpConfig = Some exampleSmtpConfig,
      testMessage = None, skipActualDelivery = skip\<rparr>"


definition senderWithBoth :: EmailSender where
  "senderWithBoth =
     \<lparr>sesClient = Some exampleClient, smtpTransporter = Some exampleSmtpConfig,
      defaultFromEmail = ''no-reply@example.com''\<rparr>"

text \<open>The second world, but with a \<^verbatim>\<open>sendmail\<close> transport whose info object has a message.\<close>

definition rawMessageWorld :: world where
  "rawMessageWorld = onlineWorld\<lparr>sendmailCallback := (\<lambda>h m. Inr (Some ''raw message''))\<rparr>"

definition exampleOptions :: EmailOptions where
  "exampleOptions =
     \<lparr>to = Single ''user@example.com'', from' = None, EmailOptions.subject = ''Hello'',
      EmailOptions.text' = Some ''Hi'', EmailOptions.html = None, cc = None, bcc = None,
      replyTo = None, attachments = None, headers = None\<rparr>"

definition exampleAttachment :: EmailAttachment where
  "exampleAttachment =
     \<lparr>filename = ''report.txt'', content = ''hello'', contentType = None, encoding = None,
      cid = None\<rparr>"

definition optionsWithAttachment :: EmailOptions where
  "optionsWithAttachment = exampleOptions\<lparr>attachments := Some [exampleAttachment]\<rparr>"

section \<open>Properties\<close>

subsection \<open>The format check\<close>

text \<open>
  What \<open>rmatch\<close> accepts, item by item: a class taken one or more times consumes a
  non-empty prefix of members of the class, a class taken once consumes one member.
\<close>

lemma rmatch_OneOrMore:
  "rmatch (OneOrMore p # is) s \<Longrightarrow>
     \<exists>a b. s = a @ b \<and> a \<noteq> [] \<and> (\<forall>c\<in>set a. p c) \<and> rmatch is b"
proof (induction s)
  case Nil
  then show ?case by simp
next
  case (Cons c s)
  from Cons.prems have pc: "p c" and alt: "rmatch (OneOrMore p # is) s \<or> rmatch is s"
    by simp_all
  from alt show ?case
  proof
    assume "rmatch (OneOrMore p # is) s"
    then obtain a b where ab: "s = a @ b" "\<forall>x\<in>set a. p x" "rmatch is b"
      using Cons.IH by blast
    have "c # s = (c # a) @ b \<and> c # a \<noteq> [] \<and> (\<forall>x\<in>set (c # a). p x) \<and> rmatch is b"
      using ab pc by simp
    then show ?thesis by blast
  next
    assume "rmatch is s"
    then have "c # s = [c] @ s \<and> [c] \<noteq> [] \<and> (\<forall>x\<in>set [c]. p x) \<and> rmatch is s"
      using pc by simp
    then show ?thesis by blast
  qed
qed

lemma rmatch_Once:
  "rmatch (Once p # is) s \<Longrightarrow> \<exists>c b. s = c # b \<and> p c \<and> rmatch is b"
  by (cases s) simp_all

lemma validateEmailFormat_shape:
  assumes "validateEmailFormat s"
  shows "\<exists>a b c. s = a @ CHR ''@'' # b @ CHR ''.'' # c \<and> a \<noteq> [] \<and> b \<noteq> [] \<and> c \<noteq> []
            \<and> (\<forall>x\<in>set a \<union> set b \<union> set c. notSpaceOrAt x)"
proof -
  from assms obtain a r1 where 1: "s = a @ r1" "a \<noteq> []" "\<forall>x\<in>set a. notSpaceOrAt x"
      "rmatch [Once (\<lambda>c. c = CHR ''@''), OneOrMore notSpaceOrAt, Once (\<lambda>c. c = CHR ''.''),
               OneOrMore notSpaceOrAt] r1"
    unfolding validateEmailFormat_def emailRegex_def
    by (blast dest: rmatch_OneOrMore)
  from 1(4) obtain r2 where 2: "r1 = CHR ''@'' # r2"
      "rmatch [OneOrMore notSpaceOrAt, Once (\<lambda>c. c = CHR ''.''), OneOrMore notSpaceOrAt] r2"
    by (blast dest: rmatch_Once)
  from 2(2) obtain b r3 where 3: "r2 = b @ r3" "b \<noteq> []" "\<forall>x\<in>set b. notSpaceOrAt x"
      "rmatch [Once (\<lambda>c. c = CHR ''.''), OneOrMore notSpaceOrAt] r3"
    by (blast dest: rmatch_OneOrMore)
  from 3(4) obtain r4 where 4: "r3 = CHR ''.'' # r4" "rmatch [OneOrMore notSpaceOrAt] r4"
    by (blast dest: rmatch_Once)
  from 4(2) obtain c r5 where 5: "r4 = c @ r5" "c \<noteq> []" "\<forall>x\<in>set c. notSpaceOrAt x" "rmatch [] r5"
    by (blast dest: rmatch_OneOrMore)
  from 5(4) have 6: "r5 = []" by simp
  have "s = a @ CHR ''@'' # b @ CHR ''.'' # c"
    using 1(1) 2(1) 3(1) 4(1) 5(1) 6 by simp
  with 1(2,3) 3(2,3) 5(2,3) show ?thesis by blast
qed

lemma rmatch_OneOrMore_intro:
  "a \<noteq> [] \<Longrightarrow> \<forall>c\<in>set a. p c \<Longrightarrow> rmatch is b \<Longrightarrow> rmatch (OneOrMore p # is) (a @ b)"
proof (induction a)
  case Nil
  then show ?case by simp
next
  case (Cons x a)
  then show ?case by (cases a) auto
qed

lemma validateEmailFormat_iff:
  "validateEmailFormat s \<longleftrightarrow>
     (\<exists>a b c. s = a @ CHR ''@'' # b @ CHR ''.'' # c \<and> a \<noteq> [] \<and> b \<noteq> [] \<and> c \<noteq> []
            \<and> (\<forall>x\<in>set a \<union> set b \<union> set c. notSpaceOrAt x))"
  (is "_ \<longleftrightarrow> ?shape")
proof
  assume "validateEmailFormat s"
  then show ?shape by (rule validateEmailFormat_shape)
next
  assume ?shape
  then obtain a b c where h: "s = a @ CHR ''@'' # b @ CHR ''.'' # c"
      "a \<noteq> []" "b \<noteq> []" "c \<noteq> []"
      "\<forall>x\<in>set a. notSpaceOrAt x" "\<forall>x\<in>set b. notSpaceOrAt x" "\<forall>x\<in>set c. notSpaceOrAt x"
    by blast
  have c: "rmatch [OneOrMore notSpaceOrAt] c"
    using rmatch_OneOrMore_intro[OF h(4) h(7), of "[]" "[]"] by simp
  have "rmatch [Once (\<lambda>c. c = CHR ''.''), OneOrMore notSpaceOrAt] (CHR ''.'' # c)"
    using c by simp
  from rmatch_OneOrMore_intro[OF h(3) h(6) this]
  have "rmatch [Once (\<lambda>c. c = CHR ''@''), OneOrMore notSpaceOrAt, Once (\<lambda>c. c = CHR ''.''),
                OneOrMore notSpaceOrAt] (CHR ''@'' # b @ CHR ''.'' # c)"
    by simp
  from rmatch_OneOrMore_intro[OF h(2) h(5) this]
  show "validateEmailFormat s"
    unfolding validateEmailFormat_def emailRegex_def h(1) by simp
qed

lemma no_dot_after_at_example:
  "\<forall>a b. ''test@example'' = a @ CHR ''@'' # b \<longrightarrow> CHR ''.'' \<notin> set b"
  by (auto simp: append_eq_Cons_conv Cons_eq_append_conv)

text \<open>
  Claim C8. For every string that contains no \<^verbatim>\<open>@\<close>, or that has no \<^verbatim>\<open>.\<close> after any
  of its \<^verbatim>\<open>@\<close> characters, the format validation returns false.
\<close>

theorem validateEmailFormat_needs_at_and_dot:
  "CHR ''@'' \<notin> set s \<or> (\<forall>a b. s = a @ CHR ''@'' # b \<longrightarrow> CHR ''.'' \<notin> set b)
     \<Longrightarrow> \<not> validateEmailFormat s"
proof
  assume hyp: "CHR ''@'' \<notin> set s \<or> (\<forall>a b. s = a @ CHR ''@'' # b \<longrightarrow> CHR ''.'' \<notin> set b)"
  assume "validateEmailFormat s"
  then obtain a b c where s: "s = a @ CHR ''@'' # b @ CHR ''.'' # c"
    using validateEmailFormat_shape by blast
  from s have "CHR ''@'' \<in> set s" by simp
  moreover from s have "s = a @ CHR ''@'' # (b @ CHR ''.'' # c) \<and> CHR ''.'' \<in> set (b @ CHR ''.'' # c)"
    by simp
  ultimately show False using hyp by blast
qed

theorem validateEmailFormat_needs_at_and_dot_witness:
  "CHR ''@'' \<notin> set ''invalid-email'' \<and> \<not> validateEmailFormat ''invalid-email''
   \<and> CHR ''.'' \<notin> set (dropWhile (\<lambda>c. c \<noteq> CHR ''@'') ''test@example'')
   \<and> \<not> validateEmailFormat ''test@example''"
proof -
  have 1: "CHR ''@'' \<notin> set ''invalid-email''" by simp
  have 2: "\<forall>a b. ''test@example'' = a @ CHR ''@'' # b \<longrightarrow> CHR ''.'' \<notin> set b"
    by (rule no_dot_after_at_example)
  have 3: "CHR ''.'' \<notin> set (dropWhile (\<lambda>c. c \<noteq> CHR ''@'') ''test@example'')" by simp
  show ?thesis
    using 1 2 3 validateEmailFormat_needs_at_and_dot[of "''invalid-email''"]
      validateEmailFormat_needs_at_and_dot[of "''test@example''"]
    by blast
qed

subsection \<open>The steps of a test\<close>

lemmas io_defs = ret_def throw_def andThen_def tryCatch_def perform_def dateNow_def

lemma checkDomainAndMX_returns:
  "\<exists>dc evs. checkDomainAndMX w d h = (Inr dc, h @ evs) \<and> list_all isDnsCall evs"
proof (cases d)
  case None
  then show ?thesis by (simp add: checkDomainAndMX_def io_defs)
next
  case (Some x)
  then show ?thesis
    by (cases "dnsResolveMx w h x") (simp_all add: checkDomainAndMX_def io_defs)
qed

lemma findTxtRecord_nonempty:
  assumes "findTxtRecord p rs = Some s" and "p \<noteq> []"
  shows "s \<noteq> []"
proof -
  from assms(1) obtain r where r: "find (\<lambda>record. list_ex (\<lambda>txt. startsWith (toLowerCase txt) p) record) rs = Some r"
    and s: "s = concat r"
    by (auto simp: findTxtRecord_def split: option.splits)
  from r have "list_ex (\<lambda>txt. startsWith (toLowerCase txt) p) r"
    by (auto simp: find_Some_iff)
  then obtain x where x: "x \<in> set r" "startsWith (toLowerCase x) p"
    by (auto simp: list_ex_iff)
  from x(2) assms(2) have "x \<noteq> []"
    by (auto simp: startsWith_def toLowerCase_def)
  with x(1) s show ?thesis by auto
qed

lemma findTxtRecord_truthy:
  "p \<noteq> [] \<Longrightarrow> truthyString (findTxtRecord p rs) = (findTxtRecord p rs \<noteq> None)"
  by (cases "findTxtRecord p rs") (auto simp: truthyString_def dest: findTxtRecord_nonempty)

lemma checkSpfRecord_returns:
  "\<exists>r evs. checkSpfRecord w d h = (Inr r, h @ evs) \<and> list_all isDnsCall evs
      \<and> truthyString r = (r \<noteq> None)"
proof (cases d)
  case None
  then show ?thesis by (simp add: checkSpfRecord_def io_defs truthyString_def)
next
  case (Some x)
  then show ?thesis
    by (cases "dnsResolveTxt w h x")
       (simp_all add: checkSpfRecord_def io_defs findTxtRecord_truthy, simp add: truthyString_def)
qed

lemma checkDmarcRecord_returns:
  "\<exists>r evs. checkDmarcRecord w d h = (Inr r, h @ evs) \<and> list_all isDnsCall evs
      \<and> truthyString r = (r \<noteq> None)"
  by (cases "dnsResolveTxt w h (''_dmarc.'' @ templateString d)")
     (simp_all add: checkDmarcRecord_def io_defs Let_def findTxtRecord_truthy, simp add: truthyString_def)

lemma testAwsSesDelivery_returns:
  "\<exists>outcome evs. testAwsSesDelivery t w c h = (Inr outcome, h @ evs)"
proof (cases "EmailDeliverabilityTester.sesClient t")
  case None
  then show ?thesis by (simp add: testAwsSesDelivery_def io_defs)
next
  case (Some client)
  then show ?thesis
    by (simp add: testAwsSesDelivery_def io_defs Let_def split: sum.splits)
qed

lemma testAwsSesDelivery_skip:
  "truthyBool (skipActualDelivery c) \<Longrightarrow>
   testAwsSesDelivery t w c h =
     (Inr (case EmailDeliverabilityTester.sesClient t of
             None \<Rightarrow> \<lparr>DeliveryOutcome.success = False, messageId = None, error = Some ''AWS SES not configured''\<rparr>
           | Some _ \<Rightarrow> \<lparr>DeliveryOutcome.success = True, messageId = Some ''skipped-test-mode'', error = None\<rparr>), h)"
  by (simp add: testAwsSesDelivery_def io_defs split: option.splits)

lemma testSmtpDelivery_returns:
  "\<exists>outcome evs. testSmtpDelivery t w c h = (Inr outcome, h @ evs)"
proof (cases "smtpConfig c")
  case None
  then show ?thesis by (simp add: testSmtpDelivery_def io_defs)
next
  case (Some sc)
  then show ?thesis
    by (simp add: testSmtpDelivery_def io_defs Let_def split: sum.splits)
qed

lemma testSmtpDelivery_skip:
  "truthyBool (skipActualDelivery c) \<Longrightarrow>
   testSmtpDelivery t w c h =
     (Inr (case smtpConfig c of
             None \<Rightarrow> \<lparr>DeliveryOutcome.success = False, messageId = None, error = Some ''SMTP configuration not provided''\<rparr>
           | Some _ \<Rightarrow> \<lparr>DeliveryOutcome.success = True, messageId = Some ''skipped-test-mode'', error = None\<rparr>), h)"
  by (simp add: testSmtpDelivery_def io_defs split: option.splits)

lemma testEmailDeliverability_invalid:
  assumes "\<not> validateEmailFormat (EmailTestConfig.email c)"
  shows "testEmailDeliverability t w c h =
     (Inr \<lparr>EmailTestFindings.email = EmailTestConfig.email c, isValid = False, domainExists = False,
           EmailTestFindings.mxRecords = [], spfRecord = None, dmarcRecord = None,
           deliverabilityTests = \<lparr>awsSes = None, smtp = None\<rparr>,
           recommendations =
             [''Email format is invalid. Please check the email address.'',
              ''Domain does not exist or has no MX records. Check domain configuration.'',
              ''No MX records found. Email delivery may fail.'',
              ''No SPF record found. Consider adding an SPF record to improve deliverability.'',
              ''No DMARC record found. Consider adding a DMARC policy for better email security.''],
           testDuration = Some (now w (h @ [DateNow]) - now w h)\<rparr>,
      h @ [DateNow, DateNow])"
  using assms
  by (simp add: testEmailDeliverability_def io_defs Let_def completeResult_def
        generateRecommendations_def truthyString_def sesFailed_def smtpFailed_def
        EmailTestFindings.defs EmailTestResult.defs)

text \<open>The two optional delivery steps of a test.\<close>

lemma sesStep_returns:
  "\<exists>ao evs. (if b then andThen (testAwsSesDelivery t w c) (\<lambda>outcome. ret (Some outcome))
              else ret None) h = (Inr ao, h @ evs)"
proof (cases b)
  case True
  obtain outcome evs where "testAwsSesDelivery t w c h = (Inr outcome, h @ evs)"
    using testAwsSesDelivery_returns by blast
  with True show ?thesis by (simp add: io_defs)
next
  case False
  then show ?thesis by (simp add: io_defs)
qed

lemma smtpStep_returns:
  "\<exists>so evs. (if b then andThen (testSmtpDelivery t w c) (\<lambda>outcome. ret (Some outcome))
              else ret None) h = (Inr so, h @ evs)"
proof (cases b)
  case True
  obtain outcome evs where "testSmtpDelivery t w c h = (Inr outcome, h @ evs)"
    using testSmtpDelivery_returns by blast
  with True show ?thesis by (simp add: io_defs)
next
  case False
  then show ?thesis by (simp add: io_defs)
qed

text \<open>
  The run of a test on an email that passes the format check: the findings \<open>f\<close>, the
  DNS calls made for them, and the two optional delivery steps with their calls.
\<close>

lemma testEmailDeliverability_valid:
  assumes "validateEmailFormat (EmailTestConfig.email c)"
  obtains f :: EmailTestFindings and ao so d dns e4 e5 where
    "testEmailDeliverability t w c h =
       (Inr (completeResult f (generateRecommendations f) d),
        h @ [DateNow] @ dns @ e4 @ e5 @ [DateNow])"
    and "EmailTestFindings.email f = EmailTestConfig.email c"
    and "isValid f"
    and "deliverabilityTests f = \<lparr>awsSes = ao, smtp = so\<rparr>"
    and "list_all isDnsCall dns"
    and "truthyString (spfRecord f) = (spfRecord f \<noteq> None)"
    and "truthyString (dmarcRecord f) = (dmarcRecord f \<noteq> None)"
    and "(if (case EmailTestConfig.provider c of None \<Rightarrow> Both | Some p \<Rightarrow> p) = Only AwsSes
             \<or> (case EmailTestConfig.provider c of None \<Rightarrow> Both | Some p \<Rightarrow> p) = Both
          then andThen (testAwsSesDelivery t w c) (\<lambda>outcome. ret (Some outcome))
          else ret None) (h @ [DateNow] @ dns) = (Inr ao, (h @ [DateNow] @ dns) @ e4)"
    and "(if (case EmailTestConfig.provider c of None \<Rightarrow> Both | Some p \<Rightarrow> p) = Only Smtp
             \<or> (case EmailTestConfig.provider c of None \<Rightarrow> Both | Some p \<Rightarrow> p) = Both
          then andThen (testSmtpDelivery t w c) (\<lambda>outcome. ret (Some outcome))
          else ret None) (h @ [DateNow] @ dns @ e4) = (Inr so, (h @ [DateNow] @ dns @ e4) @ e5)"
proof -
  let ?dom = "extractDomain (EmailTestConfig.email c)"
  let ?prov = "case EmailTestConfig.provider c of None \<Rightarrow> Both | Some p \<Rightarrow> p"
  obtain dc e1 where 1: "checkDomainAndMX w ?dom (h @ [DateNow]) = (Inr dc, (h @ [DateNow]) @ e1)"
    and d1: "list_all isDnsCall e1"
    using checkDomainAndMX_returns by blast
  obtain spf e2 where 2: "checkSpfRecord w ?dom (h @ [DateNow] @ e1) = (Inr spf, (h @ [DateNow] @ e1) @ e2)"
    and d2: "list_all isDnsCall e2"
    and spf: "truthyString spf = (spf \<noteq> None)"
    using checkSpfRecord_returns by blast
  obtain dmarc e3 where 3: "checkDmarcRecord w ?dom (h @ [DateNow] @ e1 @ e2) = (Inr dmarc, (h @ [DateNow] @ e1 @ e2) @ e3)"
    and d3: "list_all isDnsCall e3"
    and dmarc: "truthyString dmarc = (dmarc \<noteq> None)"
    using checkDmarcRecord_returns by blast
  obtain ao e4 where 4: "(if ?prov = Only AwsSes \<or> ?prov = Both
          then andThen (testAwsSesDelivery t w c) (\<lambda>outcome. ret (Some outcome))
          else ret None) (h @ [DateNow] @ (e1 @ e2 @ e3)) = (Inr ao, (h @ [DateNow] @ (e1 @ e2 @ e3)) @ e4)"
    using sesStep_returns by blast
  obtain so e5 where 5: "(if ?prov = Only Smtp \<or> ?prov = Both
          then andThen (testSmtpDelivery t w c) (\<lambda>outcome. ret (Some outcome))
          else ret None) (h @ [DateNow] @ (e1 @ e2 @ e3) @ e4) = (Inr so, (h @ [DateNow] @ (e1 @ e2 @ e3) @ e4) @ e5)"
    using smtpStep_returns by blast
  let ?f = "\<lparr>EmailTestFindings.email = EmailTestConfig.email c, isValid = True,
             domainExists = exists dc, EmailTestFindings.mxRecords = DomainCheck.mxRecords dc,
             spfRecord = spf, dmarcRecord = dmarc,
             deliverabilityTests = \<lparr>awsSes = ao, smtp = so\<rparr>\<rparr>"
  have main: "testEmailDeliverability t w c h =
       (Inr (completeResult ?f (generateRecommendations ?f)
               (now w (h @ [DateNow] @ (e1 @ e2 @ e3) @ e4 @ e5) - now w h)),
        h @ [DateNow] @ (e1 @ e2 @ e3) @ e4 @ e5 @ [DateNow])"
    unfolding testEmailDeliverability_def
    using assms 1 2 3 4 5
    by (simp add: andThen_def dateNow_def perform_def ret_def Let_def split del: if_split)
  have dns: "list_all isDnsCall (e1 @ e2 @ e3)"
    using d1 d2 d3 by simp
  have f1: "EmailTestFindings.email ?f = EmailTestConfig.email c" by simp
  have f2: "isValid ?f" by simp
  have f3: "deliverabilityTests ?f = \<lparr>awsSes = ao, smtp = so\<rparr>" by simp
  have f4: "truthyString (spfRecord ?f) = (spfRecord ?f \<noteq> None)" using spf by simp
  have f5: "truthyString (dmarcRecord ?f) = (dmarcRecord ?f \<noteq> None)" using dmarc by simp
  show thesis
    by (rule that[OF main f1 f2 f3 dns f4 f5 4 5])
qed

text \<open>A test never throws.\<close>

lemma testEmailDeliverability_returns:
  "\<exists>r evs. testEmailDeliverability t w c h = (Inr r, h @ evs)"
proof (cases "validateEmailFormat (EmailTestConfig.email c)")
  case False
  then show ?thesis by (simp add: testEmailDeliverability_invalid)
next
  case True
  obtain f :: EmailTestFindings and ao so d dns e4 e5 where
    run: "testEmailDeliverability t w c h =
       (Inr (completeResult f (generateRecommendations f) d),
        h @ [DateNow] @ dns @ e4 @ e5 @ [DateNow])"
    and "EmailTestFindings.email f = EmailTestConfig.email c"
    and "isValid f"
    and "deliverabilityTests f = \<lparr>awsSes = ao, smtp = so\<rparr>"
    and "list_all isDnsCall dns"
    and "truthyString (spfRecord f) = (spfRecord f \<noteq> None)"
    and "truthyString (dmarcRecord f) = (dmarcRecord f \<noteq> None)"
    and "(if (case EmailTestConfig.provider c of None \<Rightarrow> Both | Some p \<Rightarrow> p) = Only AwsSes
             \<or> (case EmailTestConfig.provider c of None \<Rightarrow> Both | Some p \<Rightarrow> p) = Both
          then andThen (testAwsSesDelivery t w c) (\<lambda>outcome. ret (Some outcome))
          else ret None) (h @ [DateNow] @ dns) = (Inr ao, (h @ [DateNow] @ dns) @ e4)"
    and "(if (case EmailTestConfig.provider c of None \<Rightarrow> Both | Some p \<Rightarrow> p) = Only Smtp
             \<or> (case EmailTestConfig.provider c of None \<Rightarrow> Both | Some p \<Rightarrow> p) = Both
          then andThen (testSmtpDelivery t w c) (\<lambda>outcome. ret (Some outcome))
          else ret None) (h @ [DateNow] @ dns @ e4) = (Inr so, (h @ [DateNow] @ dns @ e4) @ e5)"
    by (rule testEmailDeliverability_valid[OF True, of t w h])
  then show ?thesis by blast
qed

subsection \<open>The short circuit on an invalid format\<close>

text \<open>
  Claim C3. For every config whose email fails the format check,
  \<open>testEmailDeliverability\<close> returns at once: it reads the clock twice and makes no DNS
  and no backend call, and the result has \<open>isValid = False\<close>, \<open>domainExists = False\<close>, no
  MX records, and the invalid-format message among its recommendations.
\<close>

theorem invalid_format_short_circuit:
  assumes "\<not> validateEmailFormat (EmailTestConfig.email c)"
  shows "\<exists>r evs. testEmailDeliverability t w c h = (Inr r, h @ evs)
           \<and> list_all (\<lambda>e. \<not> isDnsCall e \<and> \<not> isBackendCall e) evs
           \<and> isValid r = False \<and> domainExists r = False \<and> EmailTestFindings.mxRecords r = []
           \<and> ''Email format is invalid. Please check the email address.'' \<in> set (recommendations r)"
  by (simp add: testEmailDeliverability_invalid[OF assms])

theorem invalid_format_short_circuit_witness:
  "\<not> validateEmailFormat (EmailTestConfig.email (exampleConfig ''invalid-email'' None (Some True)))
   \<and> (\<exists>r evs. testEmailDeliverability testerWithSes onlineWorld
                   (exampleConfig ''invalid-email'' None (Some True)) [] = (Inr r, [] @ evs)
           \<and> list_all (\<lambda>e. \<not> isDnsCall e \<and> \<not> isBackendCall e) evs
           \<and> isValid r = False \<and> domainExists r = False \<and> EmailTestFindings.mxRecords r = []
           \<and> ''Email format is invalid. Please check the email address.'' \<in> set (recommendations r))"
proof -
  have inv: "\<not> validateEmailFormat (EmailTestConfig.email (exampleConfig ''invalid-email'' None (Some True)))"
    by (simp add: exampleConfig_def validateEmailFormat_def emailRegex_def notSpaceOrAt_def)
  from invalid_format_short_circuit[OF inv] inv show ?thesis by blast
qed

text \<open>
  Claim C9. For every config whose email fails the format check, whatever provider it
  asks for, the result's \<open>deliverabilityTests\<close> has neither an \<open>awsSes\<close> nor an \<open>smtp\<close>
  entry, and no backend call is made.
\<close>

theorem invalid_format_no_delivery_entries:
  assumes "\<not> validateEmailFormat (EmailTestConfig.email c)"
  shows "\<exists>r evs. testEmailDeliverability t w c h = (Inr r, h @ evs)
           \<and> list_all (\<lambda>e. \<not> isBackendCall e) evs
           \<and> deliverabilityTests r = \<lparr>awsSes = None, smtp = None\<rparr>"
  by (simp add: testEmailDeliverability_invalid[OF assms])

theorem invalid_format_no_delivery_entries_witness:
  "\<not> validateEmailFormat (EmailTestConfig.email (exampleConfig ''test@example'' (Some Both) None))
   \<and> (\<exists>r evs. testEmailDeliverability testerWithSes onlineWorld
                   (exampleConfig ''test@example'' (Some Both) None) [] = (Inr r, [] @ evs)
           \<and> list_all (\<lambda>e. \<not> isBackendCall e) evs
           \<and> deliverabilityTests r = \<lparr>awsSes = None, smtp = None\<rparr>)"
proof -
  have inv: "\<not> validateEmailFormat (EmailTestConfig.email (exampleConfig ''test@example'' (Some Both) None))"
    by (simp add: exampleConfig_def validateEmailFormat_def emailRegex_def notSpaceOrAt_def)
  from invalid_format_no_delivery_entries[OF inv] inv show ?thesis by blast
qed

subsection \<open>Skip-delivery mode\<close>

text \<open>
  With \<^verbatim>\<open>skipActualDelivery\<close> set, each delivery step returns without a call: the
  sentinel when its backend is configured, the configuration failure otherwise. The
  configuration check comes first in both \<^verbatim>\<open>testAwsSesDelivery\<close> and
  \<^verbatim>\<open>testSmtpDelivery\<close>.
\<close>

lemma sesStep_skip:
  assumes "truthyBool (skipActualDelivery c)"
  shows "(if b then andThen (testAwsSesDelivery t w c) (\<lambda>outcome. ret (Some outcome)) else ret None) h =
     (Inr (if b then Some (case EmailDeliverabilityTester.sesClient t of
             None \<Rightarrow> \<lparr>DeliveryOutcome.success = False, messageId = None, error = Some ''AWS SES not configured''\<rparr>
           | Some _ \<Rightarrow> \<lparr>DeliveryOutcome.success = True, messageId = Some ''skipped-test-mode'', error = None\<rparr>)
           else None), h)"
  by (simp add: andThen_def ret_def testAwsSesDelivery_skip[OF assms])

lemma smtpStep_skip:
  assumes "truthyBool (skipActualDelivery c)"
  shows "(if b then andThen (testSmtpDelivery t w c) (\<lambda>outcome. ret (Some outcome)) else ret None) h =
     (Inr (if b then Some (case smtpConfig c of
             None \<Rightarrow> \<lparr>DeliveryOutcome.success = False, messageId = None, error = Some ''SMTP configuration not provided''\<rparr>
           | Some _ \<Rightarrow> \<lparr>DeliveryOutcome.success = True, messageId = Some ''skipped-test-mode'', error = None\<rparr>)
           else None), h)"
  by (simp add: andThen_def ret_def testSmtpDelivery_skip[OF assms])

lemma requested_ses:
  "((case p of None \<Rightarrow> Both | Some q \<Rightarrow> q) = Only AwsSes \<or> (case p of None \<Rightarrow> Both | Some q \<Rightarrow> q) = Both)
     = (p \<noteq> Some (Only Smtp))"
proof (cases p)
  case None
  then show ?thesis by simp
next
  case (Some q)
  then show ?thesis
  proof (cases q)
    case (Only b)
    with Some show ?thesis by (cases b) simp_all
  next
    case Both
    with Some show ?thesis by simp
  qed
qed

lemma requested_smtp:
  "((case p of None \<Rightarrow> Both | Some q \<Rightarrow> q) = Only Smtp \<or> (case p of None \<Rightarrow> Both | Some q \<Rightarrow> q) = Both)
     = (p \<noteq> Some (Only AwsSes))"
proof (cases p)
  case None
  then show ?thesis by simp
next
  case (Some q)
  then show ?thesis
  proof (cases q)
    case (Only b)
    with Some show ?thesis by (cases b) simp_all
  next
    case Both
    with Some show ?thesis by simp
  qed
qed

lemma not_backend_if_dns: "list_all isDnsCall evs \<Longrightarrow> list_all (\<lambda>e. \<not> isBackendCall e) evs"
proof (induction evs)
  case Nil
  then show ?case by simp
next
  case (Cons e evs)
  then show ?case by (cases e) simp_all
qed

text \<open>
  Claim C1, as stated: with \<^verbatim>\<open>skipActualDelivery\<close> set, every requested backend reports the
  sentinel success whether or not it is configured. It fails for a tester without a cloud
  client: the \<open>awsSes\<close> entry is the failure \<^verbatim>\<open>AWS SES not configured\<close>. It also fails
  for an email that does not pass the format check: no backend has an entry.
\<close>

theorem skip_sentinel_counterexample:
  "truthyBool (skipActualDelivery (exampleConfig ''user@example.com'' (Some (Only AwsSes)) (Some True)))
   \<and> EmailDeliverabilityTester.sesClient testerWithoutSes = None
   \<and> fst (testEmailDeliverability testerWithoutSes onlineWorld
        (exampleConfig ''user@example.com'' (Some (Only AwsSes)) (Some True)) []) =
      Inr \<lparr>EmailTestFindings.email = ''user@example.com'', isValid = True, domainExists = True,
           EmailTestFindings.mxRecords = [\<lparr>exchange = ''mx.example.com'', priority = 10\<rparr>],
           spfRecord = Some ''v=spf1 -all'', dmarcRecord = Some ''v=DMARC1; p=none'',
           deliverabilityTests =
             \<lparr>awsSes = Some \<lparr>DeliveryOutcome.success = False, messageId = None,
                             error = Some ''AWS SES not configured''\<rparr>,
              smtp = None\<rparr>,
           recommendations = [''AWS SES delivery failed: AWS SES not configured''],
           testDuration = Some 4\<rparr>
   \<and> truthyBool (skipActualDelivery (exampleConfig ''invalid-email'' (Some Both) (Some True)))
   \<and> fst (testEmailDeliverability testerWithSes onlineWorld
        (exampleConfig ''invalid-email'' (Some Both) (Some True)) []) =
      Inr \<lparr>EmailTestFindings.email = ''invalid-email'', isValid = False, domainExists = False,
           EmailTestFindings.mxRecords = [], spfRecord = None, dmarcRecord = None,
           deliverabilityTests = \<lparr>awsSes = None, smtp = None\<rparr>,
           recommendations =
             [''Email format is invalid. Please check the email address.'',
              ''Domain does not exist or has no MX records. Check domain configuration.'',
              ''No MX records found. Email delivery may fail.'',
              ''No SPF record found. Consider adding an SPF record to improve deliverability.'',
              ''No DMARC record found. Consider adding a DMARC policy for better email security.''],
           testDuration = Some 1\<rparr>"
  by code_simp

text \<open>
  Claim C1, amended. For every test config with \<^verbatim>\<open>skipActualDelivery\<close> set,
  \<open>testEmailDeliverability\<close> returns and makes no backend call; when the email passes
  the format check, the entry of each requested backend is the sentinel success (message
  id \<^verbatim>\<open>skipped-test-mode\<close>) if that backend is configured (a cloud client on the tester,
  an \<^verbatim>\<open>smtpConfig\<close> in the config) and the backend's not-configured failure otherwise, and
  a backend that was not requested has no entry.
\<close>

theorem skip_mode_outcomes:
  assumes "truthyBool (skipActualDelivery c)"
  shows "\<exists>r evs. testEmailDeliverability t w c h = (Inr r, h @ evs)
     \<and> list_all (\<lambda>e. \<not> isBackendCall e) evs
     \<and> (validateEmailFormat (EmailTestConfig.email c) \<longrightarrow>
          awsSes (deliverabilityTests r) =
            (if EmailTestConfig.provider c = Some (Only Smtp) then None
             else Some (case EmailDeliverabilityTester.sesClient t of
                          None \<Rightarrow> \<lparr>DeliveryOutcome.success = False, messageId = None,
                                   error = Some ''AWS SES not configured''\<rparr>
                        | Some _ \<Rightarrow> \<lparr>DeliveryOutcome.success = True,
                                     messageId = Some ''skipped-test-mode'', error = None\<rparr>))
        \<and> smtp (deliverabilityTests r) =
            (if EmailTestConfig.provider c = Some (Only AwsSes) then None
             else Some (case smtpConfig c of
                          None \<Rightarrow> \<lparr>DeliveryOutcome.success = False, messageId = None,
                                   error = Some ''SMTP configuration not provided''\<rparr>
                        | Some _ \<Rightarrow> \<lparr>DeliveryOutcome.success = True,
                                     messageId = Some ''skipped-test-mode'', error = None\<rparr>)))"
proof (cases "validateEmailFormat (EmailTestConfig.email c)")
  case False
  then show ?thesis
    by (simp add: testEmailDeliverability_invalid[OF False])
next
  case True
  obtain f :: EmailTestFindings and ao so d dns e4 e5 where
    run: "testEmailDeliverability t w c h =
       (Inr (completeResult f (generateRecommendations f) d),
        h @ [DateNow] @ dns @ e4 @ e5 @ [DateNow])"
    and "EmailTestFindings.email f = EmailTestConfig.email c"
    and "isValid f"
    and tests: "deliverabilityTests f = \<lparr>awsSes = ao, smtp = so\<rparr>"
    and dns: "list_all isDnsCall dns"
    and "truthyString (spfRecord f) = (spfRecord f \<noteq> None)"
    and "truthyString (dmarcRecord f) = (dmarcRecord f \<noteq> None)"
    and ses: "(if (case EmailTestConfig.provider c of None \<Rightarrow> Both | Some p \<Rightarrow> p) = Only AwsSes
             \<or> (case EmailTestConfig.provider c of None \<Rightarrow> Both | Some p \<Rightarrow> p) = Both
          then andThen (testAwsSesDelivery t w c) (\<lambda>outcome. ret (Some outcome))
          else ret None) (h @ [DateNow] @ dns) = (Inr ao, (h @ [DateNow] @ dns) @ e4)"
    and smtp: "(if (case EmailTestConfig.provider c of None \<Rightarrow> Both | Some p \<Rightarrow> p) = Only Smtp
             \<or> (case EmailTestConfig.provider c of None \<Rightarrow> Both | Some p \<Rightarrow> p) = Both
          then andThen (testSmtpDelivery t w c) (\<lambda>outcome. ret (Some outcome))
          else ret None) (h @ [DateNow] @ dns @ e4) = (Inr so, (h @ [DateNow] @ dns @ e4) @ e5)"
    by (rule testEmailDeliverability_valid[OF True, of t w h])
  from ses have ao: "ao = (if EmailTestConfig.provider c = Some (Only Smtp) then None
             else Some (case EmailDeliverabilityTester.sesClient t of
                          None \<Rightarrow> \<lparr>DeliveryOutcome.success = False, messageId = None,
                                   error = Some ''AWS SES not configured''\<rparr>
                        | Some _ \<Rightarrow> \<lparr>DeliveryOutcome.success = True,
                                     messageId = Some ''skipped-test-mode'', error = None\<rparr>))"
    and e4: "e4 = []"
    unfolding sesStep_skip[OF assms] requested_ses by auto
  from smtp have so: "so = (if EmailTestConfig.provider c = Some (Only AwsSes) then None
             else Some (case smtpConfig c of
                          None \<Rightarrow> \<lparr>DeliveryOutcome.success = False, messageId = None,
                                   error = Some ''SMTP configuration not provided''\<rparr>
                        | Some _ \<Rightarrow> \<lparr>DeliveryOutcome.success = True,
                                     messageId = Some ''skipped-test-mode'', error = None\<rparr>))"
    and e5: "e5 = []"
    unfolding smtpStep_skip[OF assms] requested_smtp by auto
  have quiet: "list_all (\<lambda>e. \<not> isBackendCall e) ([DateNow] @ dns @ e4 @ e5 @ [DateNow])"
    using not_backend_if_dns[OF dns] e4 e5 by simp
  have fields: "deliverabilityTests (completeResult f (generateRecommendations f) d)
                  = \<lparr>awsSes = ao, smtp = so\<rparr>"
    using tests by (simp add: completeResult_def EmailTestFindings.defs EmailTestResult.defs)
  have a: "awsSes (deliverabilityTests (completeResult f (generateRecommendations f) d)) = ao"
    and b: "smtp (deliverabilityTests (completeResult f (generateRecommendations f) d)) = so"
    by (simp_all add: fields)
  show ?thesis
    unfolding run
    apply (intro exI conjI impI)
       apply (rule refl)
      apply (rule quiet)
     apply (simp only: a ao)
    apply (simp only: b so)
    done
qed

theorem skip_mode_outcomes_witness:
  "truthyBool (skipActualDelivery (exampleConfig ''user@example.com'' None (Some True)))
   \<and> validateEmailFormat (EmailTestConfig.email (exampleConfig ''user@example.com'' None (Some True)))
   \<and> (\<exists>r evs. testEmailDeliverability testerWithSes onlineWorld
                    (exampleConfig ''user@example.com'' None (Some True)) [] = (Inr r, [] @ evs)
         \<and> list_all (\<lambda>e. \<not> isBackendCall e) evs
         \<and> awsSes (deliverabilityTests r) =
               Some \<lparr>DeliveryOutcome.success = True, messageId = Some ''skipped-test-mode'',
                     error = None\<rparr>
         \<and> smtp (deliverabilityTests r) =
               Some \<lparr>DeliveryOutcome.success = True, messageId = Some ''skipped-test-mode'',
                     error = None\<rparr>)"
proof -
  let ?c = "exampleConfig ''user@example.com'' None (Some True)"
  have skip: "truthyBool (skipActualDelivery ?c)"
    by (simp add: exampleConfig_def truthyBool_def)
  have valid: "validateEmailFormat (EmailTestConfig.email ?c)"
    by (simp add: exampleConfig_def validateEmailFormat_def emailRegex_def notSpaceOrAt_def
          isWhitespace_def)
  have p: "EmailTestConfig.provider ?c = None" and s: "smtpConfig ?c = Some exampleSmtpConfig"
    and k: "EmailDeliverabilityTester.sesClient testerWithSes = Some exampleClient"
    by (simp_all add: exampleConfig_def testerWithSes_def)
  from skip_mode_outcomes[OF skip, of testerWithSes onlineWorld "[]"] valid
  show ?thesis
    unfolding p s k using skip by simp
qed

subsection \<open>DNS failures\<close>

text \<open>
  Claim C6. When the resolver rejects the MX query, \<open>checkDomainAndMX\<close> returns
  \<open>exists = False\<close> with no MX records; when it rejects a TXT query, \<open>checkSpfRecord\<close>
  and \<open>checkDmarcRecord\<close> return \<^verbatim>\<open>undefined\<close>. None of the three ever throws, for
  any domain and any answer of the resolver.
\<close>

theorem dns_failures_are_absence:
  "(dnsResolveMx w h d = Inl e \<longrightarrow>
      checkDomainAndMX w (Some d) h =
        (Inr \<lparr>exists = False, DomainCheck.mxRecords = []\<rparr>, h @ [ResolveMx d]))
   \<and> (dnsResolveTxt w h d = Inl e \<longrightarrow>
      checkSpfRecord w (Some d) h = (Inr None, h @ [ResolveTxt d]))
   \<and> (dnsResolveTxt w h (''_dmarc.'' @ d) = Inl e \<longrightarrow>
      checkDmarcRecord w (Some d) h = (Inr None, h @ [ResolveTxt (''_dmarc.'' @ d)]))
   \<and> (\<exists>dc h'. checkDomainAndMX w dn h = (Inr dc, h'))
   \<and> (\<exists>r h'. checkSpfRecord w dn h = (Inr r, h'))
   \<and> (\<exists>r h'. checkDmarcRecord w dn h = (Inr r, h'))"
proof (intro conjI impI)
  assume "dnsResolveMx w h d = Inl e"
  then show "checkDomainAndMX w (Some d) h =
        (Inr \<lparr>exists = False, DomainCheck.mxRecords = []\<rparr>, h @ [ResolveMx d])"
    by (simp add: checkDomainAndMX_def io_defs)
next
  assume "dnsResolveTxt w h d = Inl e"
  then show "checkSpfRecord w (Some d) h = (Inr None, h @ [ResolveTxt d])"
    by (simp add: checkSpfRecord_def io_defs)
next
  assume "dnsResolveTxt w h (''_dmarc.'' @ d) = Inl e"
  then show "checkDmarcRecord w (Some d) h = (Inr None, h @ [ResolveTxt (''_dmarc.'' @ d)])"
    by (simp add: checkDmarcRecord_def io_defs Let_def templateString_def)
next
  show "\<exists>dc h'. checkDomainAndMX w dn h = (Inr dc, h')"
    using checkDomainAndMX_returns by blast
next
  show "\<exists>r h'. checkSpfRecord w dn h = (Inr r, h')"
    using checkSpfRecord_returns by blast
next
  show "\<exists>r h'. checkDmarcRecord w dn h = (Inr r, h')"
    using checkDmarcRecord_returns by blast
qed

theorem dns_failures_are_absence_witness:
  "dnsResolveMx offlineWorld [] ''nonexistentdomain12345.com'' = Inl (ErrorObject ''queryMx ENOTFOUND'')
   \<and> checkDomainAndMX offlineWorld (Some ''nonexistentdomain12345.com'') [] =
        (Inr \<lparr>exists = False, DomainCheck.mxRecords = []\<rparr>,
         [ResolveMx ''nonexistentdomain12345.com''])
   \<and> dnsResolveTxt offlineWorld [] ''nonexistentdomain12345.com'' = Inl (ErrorObject ''queryTxt ENOTFOUND'')
   \<and> checkSpfRecord offlineWorld (Some ''nonexistentdomain12345.com'') [] =
        (Inr None, [ResolveTxt ''nonexistentdomain12345.com''])
   \<and> dnsResolveTxt offlineWorld [] ''_dmarc.nonexistentdomain12345.com'' = Inl (ErrorObject ''queryTxt ENOTFOUND'')
   \<and> checkDmarcRecord offlineWorld (Some ''nonexistentdomain12345.com'') [] =
        (Inr None, [ResolveTxt ''_dmarc.nonexistentdomain12345.com''])"
proof -
  have mx: "dnsResolveMx offlineWorld [] ''nonexistentdomain12345.com'' = Inl (ErrorObject ''queryMx ENOTFOUND'')"
    by (simp add: offlineWorld_def)
  have t1: "dnsResolveTxt offlineWorld [] ''nonexistentdomain12345.com'' = Inl (ErrorObject ''queryTxt ENOTFOUND'')"
    by (simp add: offlineWorld_def)
  have t2: "dnsResolveTxt offlineWorld [] (''_dmarc.'' @ ''nonexistentdomain12345.com'') = Inl (ErrorObject ''queryTxt ENOTFOUND'')"
    by (simp add: offlineWorld_def)
  show ?thesis
    using mx t1 t2
      dns_failures_are_absence[of offlineWorld "[]" "''nonexistentdomain12345.com''" "ErrorObject ''queryMx ENOTFOUND''" None]
      dns_failures_are_absence[of offlineWorld "[]" "''nonexistentdomain12345.com''" "ErrorObject ''queryTxt ENOTFOUND''" None]
    by simp
qed

subsection \<open>Recommendations\<close>

text \<open>
  The pushes of \<open>generateRecommendations\<close> as one list: one optional line per check, then
  the success line when nothing was pushed.
\<close>

lemma push_if: "(if b then xs @ [l] else xs) = xs @ (if b then [l] else [])"
  by simp

lemma gen_list:
  "generateRecommendations f =
     (let ls = (if \<not> isValid f then [''Email format is invalid. Please check the email address.''] else [])
             @ (if \<not> domainExists f then [''Domain does not exist or has no MX records. Check domain configuration.''] else [])
             @ (if EmailTestFindings.mxRecords f = [] then [''No MX records found. Email delivery may fail.''] else [])
             @ (if \<not> truthyString (spfRecord f) then [''No SPF record found. Consider adding an SPF record to improve deliverability.''] else [])
             @ (if \<not> truthyString (dmarcRecord f) then [''No DMARC record found. Consider adding a DMARC policy for better email security.''] else [])
             @ (if sesFailed f then [''AWS SES delivery failed: '' @ templateString (outcomeError (awsSes (deliverabilityTests f)))] else [])
             @ (if smtpFailed f then [''SMTP delivery failed: '' @ templateString (outcomeError (smtp (deliverabilityTests f)))] else [])
      in ls @ (if ls = [] then [''Email appears to be deliverable. All tests passed successfully.''] else []))"
  unfolding generateRecommendations_def
  by (simp only: push_if Let_def append_Nil append_assoc length_0_conv)

lemma generateRecommendations_complete:
  "generateRecommendations (completeResult f recs d) = generateRecommendations f"
  by (simp add: gen_list completeResult_def sesFailed_def smtpFailed_def
        EmailTestFindings.defs EmailTestResult.defs)

lemma gen_nonempty: "generateRecommendations f \<noteq> []"
  by (simp add: gen_list Let_def)

lemma gen_invalid: "(''Email format is invalid. Please check the email address.'' \<in> set (generateRecommendations f)) = (\<not> isValid f)"
  by (simp add: gen_list Let_def)

lemma gen_domain: "(''Domain does not exist or has no MX records. Check domain configuration.'' \<in> set (generateRecommendations f)) = (\<not> domainExists f)"
  by (simp add: gen_list Let_def)

lemma gen_mx: "(''No MX records found. Email delivery may fail.'' \<in> set (generateRecommendations f)) = (EmailTestFindings.mxRecords f = [])"
  by (simp add: gen_list Let_def)

lemma gen_spf: "(''No SPF record found. Consider adding an SPF record to improve deliverability.'' \<in> set (generateRecommendations f)) = (\<not> truthyString (spfRecord f))"
  by (simp add: gen_list Let_def)

lemma gen_dmarc: "(''No DMARC record found. Consider adding a DMARC policy for better email security.'' \<in> set (generateRecommendations f)) = (\<not> truthyString (dmarcRecord f))"
  by (simp add: gen_list Let_def)

lemma gen_ses: "((''AWS SES delivery failed: '' @ templateString (outcomeError (awsSes (deliverabilityTests f)))) \<in> set (generateRecommendations f)) = sesFailed f"
  by (simp add: gen_list Let_def)

lemma gen_smtp: "((''SMTP delivery failed: '' @ templateString (outcomeError (smtp (deliverabilityTests f)))) \<in> set (generateRecommendations f)) = smtpFailed f"
  by (simp add: gen_list Let_def)

lemma gen_length: "length (generateRecommendations f) =
   max 1 (length (filter id [\<not> isValid f, \<not> domainExists f, EmailTestFindings.mxRecords f = [],
      \<not> truthyString (spfRecord f), \<not> truthyString (dmarcRecord f), sesFailed f, smtpFailed f]))"
  by (simp add: gen_list Let_def)

lemma gen_ok: "isValid f \<Longrightarrow> domainExists f \<Longrightarrow> EmailTestFindings.mxRecords f \<noteq> [] \<Longrightarrow> truthyString (spfRecord f) \<Longrightarrow> truthyString (dmarcRecord f) \<Longrightarrow> \<not> sesFailed f \<Longrightarrow> \<not> smtpFailed f \<Longrightarrow>
  generateRecommendations f = [''Email appears to be deliverable. All tests passed successfully.'']"
  by (simp add: gen_list Let_def)


lemma testEmailDeliverability_recommendations:
  assumes "testEmailDeliverability t w c h = (Inr r, h')"
  shows "recommendations r = generateRecommendations r
     \<and> truthyString (spfRecord r) = (spfRecord r \<noteq> None)
     \<and> truthyString (dmarcRecord r) = (dmarcRecord r \<noteq> None)"
proof (cases "validateEmailFormat (EmailTestConfig.email c)")
  case False
  from assms[unfolded testEmailDeliverability_invalid[OF False]]
  have r: "r = \<lparr>EmailTestFindings.email = EmailTestConfig.email c, isValid = False, domainExists = False,
           EmailTestFindings.mxRecords = [], spfRecord = None, dmarcRecord = None,
           deliverabilityTests = \<lparr>awsSes = None, smtp = None\<rparr>,
           recommendations =
             [''Email format is invalid. Please check the email address.'',
              ''Domain does not exist or has no MX records. Check domain configuration.'',
              ''No MX records found. Email delivery may fail.'',
              ''No SPF record found. Consider adding an SPF record to improve deliverability.'',
              ''No DMARC record found. Consider adding a DMARC policy for better email security.''],
           testDuration = Some (now w (h @ [DateNow]) - now w h)\<rparr>"
    by simp
  show ?thesis
    unfolding r
    by (simp add: gen_list Let_def truthyString_def sesFailed_def smtpFailed_def)
next
  case True
  obtain f :: EmailTestFindings and ao so d dns e4 e5 where
    run: "testEmailDeliverability t w c h =
       (Inr (completeResult f (generateRecommendations f) d),
        h @ [DateNow] @ dns @ e4 @ e5 @ [DateNow])"
    and "EmailTestFindings.email f = EmailTestConfig.email c"
    and "isValid f"
    and "deliverabilityTests f = \<lparr>awsSes = ao, smtp = so\<rparr>"
    and "list_all isDnsCall dns"
    and spf: "truthyString (spfRecord f) = (spfRecord f \<noteq> None)"
    and dmarc: "truthyString (dmarcRecord f) = (dmarcRecord f \<noteq> None)"
    and "(if (case EmailTestConfig.provider c of None \<Rightarrow> Both | Some p \<Rightarrow> p) = Only AwsSes
             \<or> (case EmailTestConfig.provider c of None \<Rightarrow> Both | Some p \<Rightarrow> p) = Both
          then andThen (testAwsSesDelivery t w c) (\<lambda>outcome. ret (Some outcome))
          else ret None) (h @ [DateNow] @ dns) = (Inr ao, (h @ [DateNow] @ dns) @ e4)"
    and "(if (case EmailTestConfig.provider c of None \<Rightarrow> Both | Some p \<Rightarrow> p) = Only Smtp
             \<or> (case EmailTestConfig.provider c of None \<Rightarrow> Both | Some p \<Rightarrow> p) = Both
          then andThen (testSmtpDelivery t w c) (\<lambda>outcome. ret (Some outcome))
          else ret None) (h @ [DateNow] @ dns @ e4) = (Inr so, (h @ [DateNow] @ dns @ e4) @ e5)"
    by (rule testEmailDeliverability_valid[OF True, of t w h])
  from assms run have r: "r = completeResult f (generateRecommendations f) d"
    by simp
  have 1: "recommendations r = generateRecommendations f"
    and 2: "spfRecord r = spfRecord f" and 3: "dmarcRecord r = dmarcRecord f"
    unfolding r by (simp_all add: completeResult_def EmailTestFindings.defs EmailTestResult.defs)
  have 4: "generateRecommendations r = generateRecommendations f"
    unfolding r by (rule generateRecommendations_complete)
  show ?thesis
    using 1 2 3 4 spf dmarc by simp
qed

text \<open>
  Claim C7. For every result of \<open>testEmailDeliverability\<close> the recommendations are not
  empty; each of the seven lines (invalid format, missing domain, no MX records, no SPF,
  no DMARC, cloud delivery failed, SMTP delivery failed) is present exactly when its
  deficiency is found, so the list has one line per deficiency; with no deficiency the list
  is the single success line. The invalid-format line contains \<^verbatim>\<open>invalid\<close> and the
  missing-domain line contains \<^verbatim>\<open>domain\<close>.
\<close>

theorem recommendations_one_line_per_deficiency:
  assumes "testEmailDeliverability t w c h = (Inr r, h')"
  shows "recommendations r \<noteq> []
   \<and> (''Email format is invalid. Please check the email address.'' \<in> set (recommendations r))
        = (\<not> isValid r)
   \<and> (''Domain does not exist or has no MX records. Check domain configuration.''
          \<in> set (recommendations r)) = (\<not> domainExists r)
   \<and> (''No MX records found. Email delivery may fail.'' \<in> set (recommendations r))
        = (EmailTestFindings.mxRecords r = [])
   \<and> (''No SPF record found. Consider adding an SPF record to improve deliverability.''
          \<in> set (recommendations r)) = (spfRecord r = None)
   \<and> (''No DMARC record found. Consider adding a DMARC policy for better email security.''
          \<in> set (recommendations r)) = (dmarcRecord r = None)
   \<and> (''AWS SES delivery failed: '' @ templateString (outcomeError (awsSes (deliverabilityTests r)))
          \<in> set (recommendations r)) = sesFailed r
   \<and> (''SMTP delivery failed: '' @ templateString (outcomeError (smtp (deliverabilityTests r)))
          \<in> set (recommendations r)) = smtpFailed r
   \<and> length (recommendations r) =
        max 1 (length (filter id
          [\<not> isValid r, \<not> domainExists r, EmailTestFindings.mxRecords r = [],
           spfRecord r = None, dmarcRecord r = None, sesFailed r, smtpFailed r]))
   \<and> (isValid r \<and> domainExists r \<and> EmailTestFindings.mxRecords r \<noteq> []
        \<and> spfRecord r \<noteq> None \<and> dmarcRecord r \<noteq> None \<and> \<not> sesFailed r \<and> \<not> smtpFailed r
        \<longrightarrow> recommendations r =
              [''Email appears to be deliverable. All tests passed successfully.''])
   \<and> includesStr ''Email format is invalid. Please check the email address.'' ''invalid''
   \<and> includesStr ''Domain does not exist or has no MX records. Check domain configuration.''
         ''domain''"
proof -
  from testEmailDeliverability_recommendations[OF assms]
  have recs: "recommendations r = generateRecommendations r"
    and spf: "truthyString (spfRecord r) = (spfRecord r \<noteq> None)"
    and dmarc: "truthyString (dmarcRecord r) = (dmarcRecord r \<noteq> None)"
    by simp_all
  have p1: "includesStr ''Email format is invalid. Please check the email address.'' ''invalid''"
    by (simp add: startsWith_def)
  have p2: "includesStr ''Domain does not exist or has no MX records. Check domain configuration.''
         ''domain''"
    by (simp add: startsWith_def)
  have ok: "isValid r \<and> domainExists r \<and> EmailTestFindings.mxRecords r \<noteq> []
        \<and> spfRecord r \<noteq> None \<and> dmarcRecord r \<noteq> None \<and> \<not> sesFailed r \<and> \<not> smtpFailed r
        \<longrightarrow> recommendations r =
              [''Email appears to be deliverable. All tests passed successfully.'']"
    unfolding recs using gen_ok[of r] spf dmarc by simp
  have len: "length (recommendations r) =
        max 1 (length (filter id
          [\<not> isValid r, \<not> domainExists r, EmailTestFindings.mxRecords r = [],
           spfRecord r = None, dmarcRecord r = None, sesFailed r, smtpFailed r]))"
    unfolding recs gen_length[of r] spf dmarc by simp
  have c1: "recommendations r \<noteq> []"
    unfolding recs by (rule gen_nonempty)
  have c2: "(''Email format is invalid. Please check the email address.'' \<in> set (recommendations r))
        = (\<not> isValid r)"
    unfolding recs by (rule gen_invalid)
  have c3: "(''Domain does not exist or has no MX records. Check domain configuration.''
          \<in> set (recommendations r)) = (\<not> domainExists r)"
    unfolding recs by (rule gen_domain)
  have c4: "(''No MX records found. Email delivery may fail.'' \<in> set (recommendations r))
        = (EmailTestFindings.mxRecords r = [])"
    unfolding recs by (rule gen_mx)
  have c5: "(''No SPF record found. Consider adding an SPF record to improve deliverability.''
          \<in> set (recommendations r)) = (spfRecord r = None)"
    unfolding recs gen_spf spf by simp
  have c6: "(''No DMARC record found. Consider adding a DMARC policy for better email security.''
          \<in> set (recommendations r)) = (dmarcRecord r = None)"
    unfolding recs gen_dmarc dmarc by simp
  have c7: "(''AWS SES delivery failed: '' @ templateString (outcomeError (awsSes (deliverabilityTests r)))
          \<in> set (recommendations r)) = sesFailed r"
    unfolding recs by (rule gen_ses)
  have c8: "(''SMTP delivery failed: '' @ templateString (outcomeError (smtp (deliverabilityTests r)))
          \<in> set (recommendations r)) = smtpFailed r"
    unfolding recs by (rule gen_smtp)
  show ?thesis
    by (intro conjI; (rule c1 c2 c3 c4 c5 c6 c7 c8 len ok p1 p2))
qed

theorem recommendations_one_line_per_deficiency_witness:
  "(\<exists>r h'. testEmailDeliverability testerWithSes onlineWorld
              (exampleConfig ''user@example.com'' None (Some True)) [] = (Inr r, h')
      \<and> isValid r \<and> domainExists r \<and> EmailTestFindings.mxRecords r \<noteq> []
      \<and> spfRecord r \<noteq> None \<and> dmarcRecord r \<noteq> None \<and> \<not> sesFailed r \<and> \<not> smtpFailed r
      \<and> recommendations r = [''Email appears to be deliverable. All tests passed successfully.''])
   \<and> (\<exists>r h'. testEmailDeliverability testerWithoutSes offlineWorld
              (exampleConfig ''user@example.com'' None None) [] = (Inr r, h')
      \<and> \<not> domainExists r
      \<and> ''Domain does not exist or has no MX records. Check domain configuration.''
            \<in> set (recommendations r)
      \<and> length (recommendations r) = 6)"
proof -
  let ?good = "\<lparr>EmailTestFindings.email = ''user@example.com'', isValid = True, domainExists = True,
           EmailTestFindings.mxRecords = [\<lparr>exchange = ''mx.example.com'', priority = 10\<rparr>],
           spfRecord = Some ''v=spf1 -all'', dmarcRecord = Some ''v=DMARC1; p=none'',
           deliverabilityTests =
             \<lparr>awsSes = Some \<lparr>DeliveryOutcome.success = True, messageId = Some ''skipped-test-mode'',
                             error = None\<rparr>,
              smtp = Some \<lparr>DeliveryOutcome.success = True, messageId = Some ''skipped-test-mode'',
                             error = None\<rparr>\<rparr>,
           recommendations = [''Email appears to be deliverable. All tests passed successfully.''],
           testDuration = Some 4\<rparr>"
  let ?bad = "\<lparr>EmailTestFindings.email = ''user@example.com'', isValid = True, domainExists = False,
           EmailTestFindings.mxRecords = [],
           spfRecord = None, dmarcRecord = None,
           deliverabilityTests =
             \<lparr>awsSes = Some \<lparr>DeliveryOutcome.success = False, messageId = None,
                             error = Some ''AWS SES not configured''\<rparr>,
              smtp = Some \<lparr>DeliveryOutcome.success = False, messageId = None,
                             error = Some ''connect ECONNREFUSED''\<rparr>\<rparr>,
           recommendations =
             [''Domain does not exist or has no MX records. Check domain configuration.'',
              ''No MX records found. Email delivery may fail.'',
              ''No SPF record found. Consider adding an SPF record to improve deliverability.'',
              ''No DMARC record found. Consider adding a DMARC policy for better email security.'',
              ''AWS SES delivery failed: AWS SES not configured'',
              ''SMTP delivery failed: connect ECONNREFUSED''],
           testDuration = Some 6\<rparr>"
  have g: "testEmailDeliverability testerWithSes onlineWorld
              (exampleConfig ''user@example.com'' None (Some True)) [] =
           (Inr ?good, [DateNow, ResolveMx ''example.com'', ResolveTxt ''example.com'',
                        ResolveTxt ''_dmarc.example.com'', DateNow])"
    by code_simp
  have b: "testEmailDeliverability testerWithoutSes offlineWorld
              (exampleConfig ''user@example.com'' None None) [] =
           (Inr ?bad, [DateNow, ResolveMx ''example.com'', ResolveTxt ''example.com'',
                        ResolveTxt ''_dmarc.example.com'',
                        CreateTransport (SmtpTransport exampleSmtpConfig),
                        TransporterVerify (SmtpTransport exampleSmtpConfig), DateNow])"
    by code_simp
  have gf: "isValid ?good \<and> domainExists ?good \<and> EmailTestFindings.mxRecords ?good \<noteq> []
      \<and> spfRecord ?good \<noteq> None \<and> dmarcRecord ?good \<noteq> None \<and> \<not> sesFailed ?good \<and> \<not> smtpFailed ?good"
    by (simp add: sesFailed_def smtpFailed_def)
  have bf: "\<not> domainExists ?bad \<and> length (filter id
          [\<not> isValid ?bad, \<not> domainExists ?bad, EmailTestFindings.mxRecords ?bad = [],
           spfRecord ?bad = None, dmarcRecord ?bad = None, sesFailed ?bad, smtpFailed ?bad]) = 6"
    by (simp add: sesFailed_def smtpFailed_def)
  note G = recommendations_one_line_per_deficiency[OF g]
  note B = recommendations_one_line_per_deficiency[OF b]
  have 1: "recommendations ?good = [''Email appears to be deliverable. All tests passed successfully.'']"
    using G[THEN conjunct2, THEN conjunct2, THEN conjunct2, THEN conjunct2, THEN conjunct2,
            THEN conjunct2, THEN conjunct2, THEN conjunct2, THEN conjunct2, THEN conjunct1] gf
    by (rule mp)
  have 2: "''Domain does not exist or has no MX records. Check domain configuration.''
            \<in> set (recommendations ?bad)"
    using B[THEN conjunct2, THEN conjunct2, THEN conjunct1] bf by simp
  have 3: "length (recommendations ?bad) = 6"
    using B[THEN conjunct2, THEN conjunct2, THEN conjunct2, THEN conjunct2, THEN conjunct2,
            THEN conjunct2, THEN conjunct2, THEN conjunct2, THEN conjunct1] bf
    by simp
  show ?thesis
    apply (intro conjI)
     apply (rule exI[of _ ?good], rule exI, intro conjI, rule g)
            apply (simp_all add: gf[simplified] 1)[8]
    apply (rule exI[of _ ?bad], rule exI, intro conjI, rule b)
      apply (simp add: bf[simplified])
     apply (rule 2)
    apply (rule 3)
    done
qed

subsection \<open>Batches\<close>

text \<open>
  The loop appends one result per config, in order, and counts it once: as successful
  when it is deliverable, as failed otherwise, and as failed with the error result when the
  per-item test throws.
\<close>

lemma batchLoop_invariant:
  "\<exists>new h'. batchLoop test cs (rs, s, f) h =
       (Inr (rs @ new, s + length (filter isDeliverable new),
             f + length (filter (\<lambda>r. \<not> isDeliverable r) new)), h')
     \<and> list_all2 (\<lambda>c r. (\<exists>h0 h1. test c h0 = (Inr r, h1))
                       \<or> (\<exists>h0 h1 e. test c h0 = (Inl e, h1) \<and> r = errorResult c e)) cs new"
proof (induction cs arbitrary: rs s f h)
  case Nil
  then show ?case by (simp add: ret_def)
next
  case (Cons c cs)
  obtain out h1 where t: "test c h = (out, h1)"
    by (cases "test c h")
  show ?case
  proof (cases out)
    case (Inl e)
    have nd: "\<not> isDeliverable (errorResult c e)"
      by (simp add: isDeliverable_def errorResult_def)
    obtain new h' where ih: "batchLoop test cs (rs @ [errorResult c e], s, f + 1) h1 =
       (Inr ((rs @ [errorResult c e]) @ new, s + length (filter isDeliverable new),
             (f + 1) + length (filter (\<lambda>r. \<not> isDeliverable r) new)), h')"
      and rel: "list_all2 (\<lambda>c r. (\<exists>h0 h1. test c h0 = (Inr r, h1))
                       \<or> (\<exists>h0 h1 e. test c h0 = (Inl e, h1) \<and> r = errorResult c e)) cs new"
      using Cons.IH by blast
    have step: "batchLoop test (c # cs) (rs, s, f) h =
        batchLoop test cs (rs @ [errorResult c e], s, f + 1) h1"
      using t Inl by (simp add: andThen_def tryCatch_def ret_def)
    have "batchLoop test (c # cs) (rs, s, f) h =
       (Inr (rs @ (errorResult c e # new),
             s + length (filter isDeliverable (errorResult c e # new)),
             f + length (filter (\<lambda>r. \<not> isDeliverable r) (errorResult c e # new))), h')"
      unfolding step ih using nd by simp
    moreover have "(\<exists>h0 h1. test c h0 = (Inr (errorResult c e), h1))
                    \<or> (\<exists>h0 h1 e'. test c h0 = (Inl e', h1) \<and> errorResult c e = errorResult c e')"
      using t Inl by blast
    then have "list_all2 (\<lambda>c r. (\<exists>h0 h1. test c h0 = (Inr r, h1))
                       \<or> (\<exists>h0 h1 e. test c h0 = (Inl e, h1) \<and> r = errorResult c e))
                     (c # cs) (errorResult c e # new)"
      using rel by simp
    ultimately show ?thesis by blast
  next
    case (Inr r)
    let ?s = "if isDeliverable r then s + 1 else s"
    let ?f = "if isDeliverable r then f else f + 1"
    obtain new h' where ih: "batchLoop test cs (rs @ [r], ?s, ?f) h1 =
       (Inr ((rs @ [r]) @ new, ?s + length (filter isDeliverable new),
             ?f + length (filter (\<lambda>r. \<not> isDeliverable r) new)), h')"
      and rel: "list_all2 (\<lambda>c r. (\<exists>h0 h1. test c h0 = (Inr r, h1))
                       \<or> (\<exists>h0 h1 e. test c h0 = (Inl e, h1) \<and> r = errorResult c e)) cs new"
      using Cons.IH by blast
    have step: "batchLoop test (c # cs) (rs, s, f) h = batchLoop test cs (rs @ [r], ?s, ?f) h1"
      using t Inr by (simp add: andThen_def tryCatch_def ret_def)
    have "batchLoop test (c # cs) (rs, s, f) h =
       (Inr (rs @ (r # new),
             s + length (filter isDeliverable (r # new)),
             f + length (filter (\<lambda>r. \<not> isDeliverable r) (r # new))), h')"
      unfolding step ih by simp
    moreover have "(\<exists>h0 h1. test c h0 = (Inr r, h1))
                    \<or> (\<exists>h0 h1 e. test c h0 = (Inl e, h1) \<and> r = errorResult c e)"
      using t Inr by blast
    then have "list_all2 (\<lambda>c r. (\<exists>h0 h1. test c h0 = (Inr r, h1))
                       \<or> (\<exists>h0 h1 e. test c h0 = (Inl e, h1) \<and> r = errorResult c e))
                     (c # cs) (r # new)"
      using rel by simp
    ultimately show ?thesis by blast
  qed
qed

lemma testMultipleEmails_returns:
  "\<exists>rs h'. testMultipleEmails test w configs h =
       (Inr \<lparr>successful = length (filter isDeliverable rs),
             failed = length (filter (\<lambda>r. \<not> isDeliverable r) rs),
             BatchTestResult.total = length configs, results = rs,
             duration = now w h' - now w h\<rparr>, h' @ [DateNow])
     \<and> list_all2 (\<lambda>c r. (\<exists>h0 h1. test c h0 = (Inr r, h1))
                       \<or> (\<exists>h0 h1 e. test c h0 = (Inl e, h1) \<and> r = errorResult c e)) configs rs"
proof -
  obtain new h' where loop: "batchLoop test configs ([], 0, 0) (h @ [DateNow]) =
       (Inr ([] @ new, 0 + length (filter isDeliverable new),
             0 + length (filter (\<lambda>r. \<not> isDeliverable r) new)), h')"
    and rel: "list_all2 (\<lambda>c r. (\<exists>h0 h1. test c h0 = (Inr r, h1))
                       \<or> (\<exists>h0 h1 e. test c h0 = (Inl e, h1) \<and> r = errorResult c e)) configs new"
    using batchLoop_invariant by blast
  have "testMultipleEmails test w configs h =
       (Inr \<lparr>successful = length (filter isDeliverable new),
             failed = length (filter (\<lambda>r. \<not> isDeliverable r) new),
             BatchTestResult.total = length configs, results = new,
             duration = now w h' - now w h\<rparr>, h' @ [DateNow])"
    using loop by (simp add: testMultipleEmails_def andThen_def dateNow_def perform_def ret_def)
  with rel show ?thesis by blast
qed

text \<open>
  With the class's own per-item test, which never throws, every result of a batch is a
  result of \<open>testEmailDeliverability\<close> on one of the configs; what holds of every such
  result holds of every result of the batch.
\<close>

lemma batch_results_are_test_results:
  assumes "testMultipleEmails (testEmailDeliverability t w) w configs h = (Inr b, h')"
    and "r \<in> set (results b)"
  shows "\<exists>c h0 h1. c \<in> set configs \<and> testEmailDeliverability t w c h0 = (Inr r, h1)"
proof -
  obtain rs h'' where run: "testMultipleEmails (testEmailDeliverability t w) w configs h =
       (Inr \<lparr>successful = length (filter isDeliverable rs),
             failed = length (filter (\<lambda>r. \<not> isDeliverable r) rs),
             BatchTestResult.total = length configs, results = rs,
             duration = now w h'' - now w h\<rparr>, h'' @ [DateNow])"
    and rel: "list_all2 (\<lambda>c r. (\<exists>h0 h1. testEmailDeliverability t w c h0 = (Inr r, h1))
                       \<or> (\<exists>h0 h1 e. testEmailDeliverability t w c h0 = (Inl e, h1) \<and> r = errorResult c e)) configs rs"
    using testMultipleEmails_returns by blast
  from assms(1) run have "results b = rs" by auto
  with assms(2) obtain i where i: "i < length rs" "rs ! i = r"
    by (auto simp: in_set_conv_nth)
  from rel i have len: "i < length configs"
    and alt: "(\<exists>h0 h1. testEmailDeliverability t w (configs ! i) h0 = (Inr r, h1))
           \<or> (\<exists>h0 h1 e. testEmailDeliverability t w (configs ! i) h0 = (Inl e, h1) \<and> r = errorResult (configs ! i) e)"
    by (auto simp: list_all2_conv_all_nth)
  have "\<And>h0 h1 e. testEmailDeliverability t w (configs ! i) h0 \<noteq> (Inl e, h1)"
    using testEmailDeliverability_returns[of t w "configs ! i"] by (metis Pair_inject sum.distinct(1))
  with alt have "\<exists>h0 h1. testEmailDeliverability t w (configs ! i) h0 = (Inr r, h1)"
    by blast
  with len show ?thesis
    by (metis nth_mem)
qed

text \<open>
  Claim C2. For every list of configs and every per-item test, \<open>testMultipleEmails\<close>
  returns a batch result with \<open>total\<close> the number of configs and one result per config in
  input order: the result the test returned for that config, or, when the test threw, the
  failed result with \<open>isValid = False\<close>, \<open>domainExists = False\<close>, no MX records and the
  error recommendation. \<open>successful\<close> counts the deliverable results, \<open>failed\<close> the others,
  and the two add up to the number of configs.
\<close>

theorem testMultipleEmails_aggregates:
  "\<exists>b h'. testMultipleEmails test w configs h = (Inr b, h')
     \<and> BatchTestResult.total b = length configs
     \<and> length (results b) = length configs
     \<and> list_all2
          (\<lambda>c r. (\<exists>h0 h1. test c h0 = (Inr r, h1))
               \<or> (\<exists>h0 h1 e. test c h0 = (Inl e, h1)
                    \<and> r = \<lparr>EmailTestFindings.email = EmailTestConfig.email c, isValid = False,
                            domainExists = False, EmailTestFindings.mxRecords = [],
                            spfRecord = None, dmarcRecord = None,
                            deliverabilityTests = \<lparr>awsSes = None, smtp = None\<rparr>,
                            recommendations =
                              [''Error testing email: '' @ errorMessageOr e ''Unknown error''],
                            testDuration = None\<rparr>))
          configs (results b)
     \<and> successful b = length (filter isDeliverable (results b))
     \<and> failed b = length (filter (\<lambda>r. \<not> isDeliverable r) (results b))
     \<and> successful b + failed b = length configs"
proof -
  obtain rs h' where run: "testMultipleEmails test w configs h =
       (Inr \<lparr>successful = length (filter isDeliverable rs),
             failed = length (filter (\<lambda>r. \<not> isDeliverable r) rs),
             BatchTestResult.total = length configs, results = rs,
             duration = now w h' - now w h\<rparr>, h' @ [DateNow])"
    and rel: "list_all2 (\<lambda>c r. (\<exists>h0 h1. test c h0 = (Inr r, h1))
                       \<or> (\<exists>h0 h1 e. test c h0 = (Inl e, h1) \<and> r = errorResult c e)) configs rs"
    using testMultipleEmails_returns by blast
  have len: "length rs = length configs"
    using list_all2_lengthD[OF rel] by simp
  have sum: "length (filter isDeliverable rs) + length (filter (\<lambda>r. \<not> isDeliverable r) rs) = length configs"
    using len sum_length_filter_compl[of isDeliverable rs] by simp
  show ?thesis
    unfolding run
    using rel len sum by (simp add: errorResult_def)
qed

text \<open>A batch with a per-item test that throws on its second config.\<close>

lemma testMultipleEmails_exception_example:
  "fst (testMultipleEmails
          (\<lambda>c. if EmailTestConfig.email c = ''boom@example.com''
               then throw (ErrorObject ''lookup crashed'')
               else testEmailDeliverability testerWithSes onlineWorld c)
          onlineWorld
          [exampleConfig ''user@example.com'' None (Some True),
           exampleConfig ''boom@example.com'' None (Some True)] []) =
   Inr \<lparr>successful = 1, failed = 1, BatchTestResult.total = 2,
        results =
          [\<lparr>EmailTestFindings.email = ''user@example.com'', isValid = True, domainExists = True,
            EmailTestFindings.mxRecords = [\<lparr>exchange = ''mx.example.com'', priority = 10\<rparr>],
            spfRecord = Some ''v=spf1 -all'', dmarcRecord = Some ''v=DMARC1; p=none'',
            deliverabilityTests =
              \<lparr>awsSes = Some \<lparr>DeliveryOutcome.success = True,
                              messageId = Some ''skipped-test-mode'', error = None\<rparr>,
               smtp = Some \<lparr>DeliveryOutcome.success = True,
                            messageId = Some ''skipped-test-mode'', error = None\<rparr>\<rparr>,
            recommendations =
              [''Email appears to be deliverable. All tests passed successfully.''],
            testDuration = Some 4\<rparr>,
           \<lparr>EmailTestFindings.email = ''boom@example.com'', isValid = False,
            domainExists = False, EmailTestFindings.mxRecords = [], spfRecord = None,
            dmarcRecord = None, deliverabilityTests = \<lparr>awsSes = None, smtp = None\<rparr>,
            recommendations = [''Error testing email: lookup crashed''],
            testDuration = None\<rparr>],
        duration = 6\<rparr>"
  by code_simp

lemma classify_lengths:
  "length (fst (classify rs acc)) + length (snd (classify rs acc)) =
     length (fst acc) + length (snd acc) + length rs"
proof (induction rs arbitrary: acc)
  case Nil
  then show ?case by simp
next
  case (Cons r rs)
  obtain v i where acc: "acc = (v, i)" by (cases acc)
  show ?case
    unfolding acc using Cons.IH by simp
qed

text \<open>
  Claim C5. For every list of emails, \<open>validateEmails\<close> returns, the valid and the
  invalid emails together are as many as the emails given, and the summary holds the three
  counts; for the empty list all three are zero and both lists are empty.
\<close>

theorem validateEmails_counts:
  "(\<exists>v h'. validateEmails t w emails h = (Inr v, h')
      \<and> length (validEmails v) + length (invalidEmails v) = length emails
      \<and> ValidationSummary.total (summary v) = length emails
      \<and> valid (summary v) = length (validEmails v)
      \<and> invalid (summary v) = length (invalidEmails v))
   \<and> (\<exists>h'. validateEmails t w [] h =
         (Inr \<lparr>validEmails = [], invalidEmails = [],
               summary = \<lparr>ValidationSummary.total = 0, valid = 0, invalid = 0\<rparr>\<rparr>, h'))"
proof (rule conjI)
  let ?configs = "map (\<lambda>email. \<lparr>EmailTestConfig.email = email, provider = None, smtpConfig = None,
                          testMessage = None, skipActualDelivery = Some True\<rparr>) emails"
  obtain rs h' where run: "testMultipleEmails (testEmailDeliverability t w) w ?configs h =
       (Inr \<lparr>successful = length (filter isDeliverable rs),
             failed = length (filter (\<lambda>r. \<not> isDeliverable r) rs),
             BatchTestResult.total = length ?configs, results = rs,
             duration = now w h' - now w h\<rparr>, h' @ [DateNow])"
    and rel: "list_all2 (\<lambda>c r. (\<exists>h0 h1. testEmailDeliverability t w c h0 = (Inr r, h1))
                       \<or> (\<exists>h0 h1 e. testEmailDeliverability t w c h0 = (Inl e, h1) \<and> r = errorResult c e)) ?configs rs"
    using testMultipleEmails_returns by blast
  have len: "length rs = length emails"
    using list_all2_lengthD[OF rel] by simp
  obtain v i where cl: "classify rs ([], []) = (v, i)"
    by (cases "classify rs ([], [])")
  have vi: "length v + length i = length emails"
    using classify_lengths[of rs "([], [])"] cl len by simp
  have "validateEmails t w emails h =
      (Inr \<lparr>validEmails = v, invalidEmails = i,
            summary = \<lparr>ValidationSummary.total = length emails, valid = length v,
                       invalid = length i\<rparr>\<rparr>, h' @ [DateNow])"
    using run cl by (simp add: validateEmails_def andThen_def ret_def Let_def)
  with vi show "\<exists>v h'. validateEmails t w emails h = (Inr v, h')
      \<and> length (validEmails v) + length (invalidEmails v) = length emails
      \<and> ValidationSummary.total (summary v) = length emails
      \<and> valid (summary v) = length (validEmails v)
      \<and> invalid (summary v) = length (invalidEmails v)"
    by simp
next
  show "\<exists>h'. validateEmails t w [] h =
         (Inr \<lparr>validEmails = [], invalidEmails = [],
               summary = \<lparr>ValidationSummary.total = 0, valid = 0, invalid = 0\<rparr>\<rparr>, h')"
    by (simp add: validateEmails_def testMultipleEmails_def andThen_def ret_def dateNow_def
          perform_def)
qed

subsection \<open>The sender\<close>












text \<open>
  The attachment path. When the info object of the \<^verbatim>\<open>sendmail\<close> transport has no
  \<^verbatim>\<open>message\<close>, the exception of \<^verbatim>\<open>Buffer.from\<close> is uncaught: \<open>send\<close> returns no result and
  does not reach the SMTP backend, although it is configured. When the info object has a
  message, the raw message is handed to the cloud API.
\<close>

lemma send_attachment_uncaught_example:
  "EmailSender.sesClient senderWithBoth \<noteq> None \<and> smtpTransporter senderWithBoth \<noteq> None
   \<and> hasAttachments optionsWithAttachment
   \<and> send senderWithBoth onlineWorld optionsWithAttachment None [] =
       (Uncaught bufferFromError,
        [CreateTransport SendmailTransport,
         TransporterSendMail SendmailTransport (mailOptionsOf senderWithBoth optionsWithAttachment)])"
  by code_simp

lemma send_attachment_resolved_example:
  "send senderWithBoth rawMessageWorld optionsWithAttachment None [] =
     (Resolved \<lparr>EmailSendResult.success = True, messageId = Some ''ses-raw-message-1'',
                error = None, provider = AwsSes\<rparr>,
      [CreateTransport SendmailTransport,
       TransporterSendMail SendmailTransport (mailOptionsOf senderWithBoth optionsWithAttachment),
       SesSendRawEmail exampleClient ''raw message''])"
  by code_simp







end
